theory Spec2Isabelle
  imports Main "HOL-Library.AList"
begin

section \<open>JavaScript values and strings\<close>

text \<open>
  A string is the list of its UTF-8 bytes, which is how the tools store it in a file
  (a JavaScript string with an unpaired surrogate has no UTF-8 form and is not a
  string of the model). The values that travel between the model and the tools are
  JSON values; numbers are integers here (what the tools and the tests use), printed
  in plain decimal.
\<close>

datatype jsval =
    JNull
  | JBool bool
  | JNum int
  | JStr string
  | JArr "jsval list"
  | JObj "(string \<times> jsval) list"

text \<open>
  \<open>Record<string, unknown>\<close>: the own properties of the object as (key, value) pairs
  in the order \<open>Object.keys\<close> / \<open>Object.values\<close> enumerate them (insertion order for
  the names used here). A key occurs once.
\<close>

type_synonym args = "(string \<times> jsval) list"

definition Object_values :: "(string \<times> 'a) list \<Rightarrow> 'a list" where
  "Object_values obj = map snd obj"

definition Object_keys :: "(string \<times> 'a) list \<Rightarrow> string list" where
  "Object_keys obj = map fst obj"

definition digit_char :: "nat \<Rightarrow> char" where
  "digit_char d = ''0123456789'' ! d"

fun string_of_nat :: "nat \<Rightarrow> string" where
  "string_of_nat n =
     (if n < 10 then [digit_char n] else string_of_nat (n div 10) @ [digit_char (n mod 10)])"

definition string_of_int :: "int \<Rightarrow> string" where
  "string_of_int i = (if i < 0 then CHR ''-'' # string_of_nat (nat (- i)) else string_of_nat (nat i))"

fun join :: "string \<Rightarrow> string list \<Rightarrow> string" where
  "join sep [] = []"
| "join sep [x] = x"
| "join sep (x # y # ys) = x @ sep @ join sep (y # ys)"

text \<open>\<open>String(v)\<close>, as a template literal applies it to an interpolated value.\<close>

fun String_js :: "jsval \<Rightarrow> string" where
  "String_js JNull = ''null''"
| "String_js (JBool b) = (if b then ''true'' else ''false'')"
| "String_js (JNum i) = string_of_int i"
| "String_js (JStr s) = s"
| "String_js (JArr vs) = join '','' (map (\<lambda>v. if v = JNull then [] else String_js v) vs)"
| "String_js (JObj kvs) = ''[object Object]''"

definition startsWith :: "string \<Rightarrow> string \<Rightarrow> bool" where
  "startsWith s p = (take (length p) s = p)"

fun str_includes :: "string \<Rightarrow> string \<Rightarrow> bool" where
  "str_includes [] needle = (needle = [])"
| "str_includes (c # cs) needle = (startsWith (c # cs) needle \<or> str_includes cs needle)"

definition quoted :: "string \<Rightarrow> string" where
  "quoted s = CHR 0x27 # s @ [CHR 0x27]"

section \<open>The agent (agent.ts)\<close>

subsection \<open>Data\<close>

record ToolDefinition =
  name :: string
  description :: string
  parameters :: jsval

text \<open>
  A tool function receives its positional arguments and acts on the outside world
  \<open>'w\<close> (the file system for the tools of tools.ts). \<open>Inl m\<close> is a throw whose message
  (\<open>error.message\<close>, or \<open>String(error)\<close> when it is not an Error) is \<open>m\<close>.
\<close>

record 'w Tool =
  tool_definition :: ToolDefinition
  tool_function :: "jsval list \<Rightarrow> 'w \<Rightarrow> (string + jsval) \<times> 'w"
  requiresConfirmation :: "bool option"

type_synonym 'w ToolsMap = "(string \<times> 'w Tool) list"

record FunctionCall =
  fc_name :: "string option"
  fc_args :: "args option"

text \<open>The \<open>response\<close> object of a functionResponse: \<open>{ result: v }\<close> or \<open>{ error: m }\<close>.\<close>

datatype ToolResult = ResultOf jsval | ErrorOf string

datatype Part =
    TextPart string
  | FunctionCallPart FunctionCall
  | FunctionResponse string ToolResult

record Content =
  role :: string
  parts :: "Part list"

text \<open>
  What \<open>run\<close> reads of a response: the content of the first candidate, when there is
  one, and \<open>functionCalls\<close>. The model takes both as the response gives them, as the
  mock responses of the tests do.
\<close>

record Candidate =
  content :: "Content option"

record GenerateContentResponse =
  candidates :: "Candidate list option"
  functionCalls :: "FunctionCall list option"
  response_text :: "string option"

record Request =
  req_model :: string
  req_contents :: "Content list"
  req_systemInstruction :: string
  req_tools :: "ToolDefinition list option"

datatype error = Error string

text \<open>\<open>string | Part[]\<close>\<close>

datatype Input = StringInput string | PartsInput "Part list"

record 'w AgentConfig =
  cfg_model :: "string option"
  cfg_tools :: "'w ToolsMap option"
  cfg_systemInstruction :: "string option"
  cfg_maxIterations :: "int option"
  cfg_onToolCall :: "(string \<Rightarrow> args \<Rightarrow> 'w \<Rightarrow> 'w) option"
  cfg_confirmAction :: "(string \<Rightarrow> args \<Rightarrow> 'w \<Rightarrow> bool \<times> 'w) option"

text \<open>
  The fields of class \<open>Agent\<close>. \<open>client\<close> stands for
  \<open>client.models.generateContent\<close>: it answers a request, or throws (\<open>Inl\<close>).
  \<open>maxIterations\<close> is an integer. The two hooks act on the outside world (the person
  at the terminal) and return: the logging hook nothing, the confirmation hook the
  answer.
\<close>

record 'w Agent =
  client :: "Request \<Rightarrow> 'w \<Rightarrow> (error + GenerateContentResponse) \<times> 'w"
  model :: string
  tools :: "'w ToolsMap option"
  contents :: "Content list"
  systemInstruction :: string
  maxIterations :: int
  onToolCall :: "(string \<Rightarrow> args \<Rightarrow> 'w \<Rightarrow> 'w) option"
  confirmAction :: "(string \<Rightarrow> args \<Rightarrow> 'w \<Rightarrow> bool \<times> 'w) option"

text \<open>
  What a run has done to the outside world, in order: the observable calls the loop
  makes. The list is bookkeeping of the model only; the code keeps no such log.
\<close>

datatype Event =
    ModelCalled Request
  | ConfirmAsked string args bool
  | ToolCallLogged string args
  | ToolInvoked string "jsval list"

record 'w env =
  world :: 'w
  trace :: "Event list"

definition DEFAULT_MODEL :: string where
  "DEFAULT_MODEL = ''gemini-2.5-flash''"

definition new_Agent ::
  "(Request \<Rightarrow> 'w \<Rightarrow> (error + GenerateContentResponse) \<times> 'w) \<Rightarrow> 'w AgentConfig \<Rightarrow> 'w Agent" where
  "new_Agent cl config =
     \<lparr> client = cl,
       model = (case cfg_model config of None \<Rightarrow> DEFAULT_MODEL | Some m \<Rightarrow> m),
       tools = cfg_tools config,
       contents = [],
       systemInstruction =
         (case cfg_systemInstruction config of
            None \<Rightarrow> ''You are a helpful assistant.'' | Some s \<Rightarrow> s),
       maxIterations = (case cfg_maxIterations config of None \<Rightarrow> 15 | Some n \<Rightarrow> n),
       onToolCall = cfg_onToolCall config,
       confirmAction = cfg_confirmAction config \<rparr>"

definition clearHistory :: "'w Agent \<Rightarrow> 'w Agent" where
  "clearHistory ag = ag\<lparr>contents := []\<rparr>"

definition getHistory :: "'w Agent \<Rightarrow> Content list" where
  "getHistory ag = contents ag"

subsection \<open>formatError\<close>

text \<open>\<open>args.k\<close> followed by \<open>??\<close>: an absent key and \<open>null\<close> both fall through.\<close>

definition nullish_get :: "args \<Rightarrow> string \<Rightarrow> jsval option" where
  "nullish_get a k = (case map_of a k of Some JNull \<Rightarrow> None | r \<Rightarrow> r)"

definition formatError :: "string \<Rightarrow> string \<Rightarrow> args \<Rightarrow> string" where
  "formatError message toolName a =
     (if str_includes message ''ENOENT'' \<or> str_includes message ''no such file'' then
        (let path = (case nullish_get a ''file_path'' of
                       Some v \<Rightarrow> v
                     | None \<Rightarrow> (case nullish_get a ''directory_path'' of
                                  Some v \<Rightarrow> v
                                | None \<Rightarrow> JStr ''unknown''))
         in ''Error: File or directory not found at '' @ quoted (String_js path)
              @ ''. Please verify the path exists.'')
      else if str_includes message ''EACCES'' \<or> str_includes message ''permission denied'' then
        ''Error: Permission denied. Cannot access the specified path.''
      else if str_includes message ''EISDIR'' then
        ''Error: Expected a file but found a directory.''
      else ''Error in '' @ toolName @ '': '' @ message)"

subsection \<open>The body of the loop over the function calls\<close>

text \<open>
  \<open>this.tools && toolName in this.tools\<close>, then \<open>this.tools[toolName]\<close>. The
  registry is a plain object, so \<open>in\<close> also holds for the names every object inherits
  from \<open>Object.prototype\<close>; what is found under such a name is no tool: it has no
  \<open>requiresConfirmation\<close> and no \<open>function\<close>.
\<close>

datatype 'w registry_entry = Registered "'w Tool" | Inherited | Absent

definition Object_prototype_names :: "string list" where
  "Object_prototype_names =
     [''constructor'', ''__defineGetter__'', ''__defineSetter__'', ''hasOwnProperty'',
      ''__lookupGetter__'', ''__lookupSetter__'', ''isPrototypeOf'', ''propertyIsEnumerable'',
      ''toString'', ''valueOf'', ''__proto__'', ''toLocaleString'']"

definition lookup_tool :: "'w Agent \<Rightarrow> string \<Rightarrow> 'w registry_entry" where
  "lookup_tool ag toolName =
     (case tools ag of
        None \<Rightarrow> Absent
      | Some ts \<Rightarrow>
          (case map_of ts toolName of
             Some tool \<Rightarrow> Registered tool
           | None \<Rightarrow> if toolName \<in> set Object_prototype_names then Inherited else Absent))"

definition not_found_message :: "'w Agent \<Rightarrow> string \<Rightarrow> string" where
  "not_found_message ag toolName =
     ''Tool '' @ quoted toolName @ '' not found. Available tools: ''
       @ join '', '' (Object_keys (case tools ag of None \<Rightarrow> [] | Some ts \<Rightarrow> ts))"

definition fire_onToolCall :: "'w Agent \<Rightarrow> string \<Rightarrow> args \<Rightarrow> 'w env \<Rightarrow> 'w env" where
  "fire_onToolCall ag toolName toolArgs e =
     (case onToolCall ag of
        None \<Rightarrow> e
      | Some hook \<Rightarrow>
          \<lparr> world = hook toolName toolArgs (world e),
            trace = trace e @ [ToolCallLogged toolName toolArgs] \<rparr>)"

text \<open>
  One iteration of \<open>for (const functionCall of response.functionCalls)\<close>: the Part it
  pushes onto \<open>functionResponseParts\<close>, and the world after it. Under an inherited
  name the confirmation is skipped (\<open>undefined\<close> is falsy), the logging hook is fired,
  and the call of \<open>tool.function\<close>, which is \<open>undefined\<close>, is a \<open>TypeError\<close> that the
  \<open>catch\<close> formats.
\<close>

definition toolName_of :: "FunctionCall \<Rightarrow> string" where
  "toolName_of functionCall = (case fc_name functionCall of None \<Rightarrow> ''unknown'' | Some n \<Rightarrow> n)"

definition toolArgs_of :: "FunctionCall \<Rightarrow> args" where
  "toolArgs_of functionCall = (case fc_args functionCall of None \<Rightarrow> [] | Some a \<Rightarrow> a)"

text \<open>
  Lines 113-116: the confirmation hook is asked only for a tool that requires
  confirmation, and only when a hook is configured. The result is its answer
  (\<open>True\<close> when it is not asked).
\<close>

definition confirm_step ::
  "'w Agent \<Rightarrow> 'w Tool \<Rightarrow> string \<Rightarrow> args \<Rightarrow> 'w env \<Rightarrow> bool \<times> 'w env" where
  "confirm_step ag tool toolName toolArgs e =
     (case confirmAction ag of
        Some hook \<Rightarrow>
          if requiresConfirmation tool = Some True then
            (let (answer, w1) = hook toolName toolArgs (world e)
             in (answer,
                 \<lparr> world = w1, trace = trace e @ [ConfirmAsked toolName toolArgs answer] \<rparr>))
          else (True, e)
      | None \<Rightarrow> (True, e))"

text \<open>Lines 125-136: log, call the tool function, catch what it throws.\<close>

definition execute_step ::
  "'w Agent \<Rightarrow> 'w Tool \<Rightarrow> string \<Rightarrow> args \<Rightarrow> 'w env \<Rightarrow> ToolResult \<times> 'w env" where
  "execute_step ag tool toolName toolArgs e =
     (let e2 = fire_onToolCall ag toolName toolArgs e;
          (outcome, w3) = tool_function tool (Object_values toolArgs) (world e2);
          e3 = \<lparr> world = w3,
                 trace = trace e2 @ [ToolInvoked toolName (Object_values toolArgs)] \<rparr>
      in case outcome of
           Inr fnResult \<Rightarrow> (ResultOf fnResult, e3)
         | Inl message \<Rightarrow> (ErrorOf (formatError message toolName toolArgs), e3))"

definition handle_call :: "'w Agent \<Rightarrow> FunctionCall \<Rightarrow> 'w env \<Rightarrow> Part \<times> 'w env" where
  "handle_call ag functionCall e =
     (let toolName = toolName_of functionCall;
          toolArgs = toolArgs_of functionCall
      in case lookup_tool ag toolName of
           Registered tool \<Rightarrow>
             (let (confirmed, e1) = confirm_step ag tool toolName toolArgs e
              in if \<not> confirmed then
                   (FunctionResponse toolName (ErrorOf ''Action cancelled by user.''), e1)
                 else
                   (let (result, e3) = execute_step ag tool toolName toolArgs e1
                    in (FunctionResponse toolName result, e3)))
         | Inherited \<Rightarrow>
             (let e2 = fire_onToolCall ag toolName toolArgs e;
                  result = ErrorOf (formatError ''tool.function is not a function'' toolName toolArgs)
              in (FunctionResponse toolName result, e2))
         | Absent \<Rightarrow>
             (let e1 = fire_onToolCall ag toolName toolArgs e;
                  result = ErrorOf (not_found_message ag toolName)
              in (FunctionResponse toolName result, e1)))"

fun handle_calls :: "'w Agent \<Rightarrow> FunctionCall list \<Rightarrow> 'w env \<Rightarrow> Part list \<times> 'w env" where
  "handle_calls ag [] e = ([], e)"
| "handle_calls ag (functionCall # rest) e =
     (let (p, e1) = handle_call ag functionCall e;
          (ps, e2) = handle_calls ag rest e1
      in (p # ps, e2))"

subsection \<open>run\<close>

definition user_turn :: "Input \<Rightarrow> Content" where
  "user_turn input =
     (case input of
        StringInput s \<Rightarrow> \<lparr> role = ''user'', parts = [TextPart s] \<rparr>
      | PartsInput ps \<Rightarrow> \<lparr> role = ''user'', parts = ps \<rparr>)"

definition functionDeclarations :: "'w Agent \<Rightarrow> ToolDefinition list option" where
  "functionDeclarations ag =
     (case tools ag of None \<Rightarrow> None | Some ts \<Rightarrow> Some (map tool_definition (Object_values ts)))"

definition build_request :: "'w Agent \<Rightarrow> Request" where
  "build_request ag =
     \<lparr> req_model = model ag,
       req_contents = contents ag,
       req_systemInstruction = systemInstruction ag,
       req_tools = (case functionDeclarations ag of
                      None \<Rightarrow> None
                    | Some ds \<Rightarrow> if length ds \<noteq> 0 then Some ds else None) \<rparr>"

text \<open>\<open>response.candidates?.[0]?.content\<close>\<close>

definition first_content :: "GenerateContentResponse \<Rightarrow> Content option" where
  "first_content response =
     (case candidates response of
        None \<Rightarrow> None
      | Some [] \<Rightarrow> None
      | Some (c # _) \<Rightarrow> content c)"

definition push_content :: "'w Agent \<Rightarrow> Content \<Rightarrow> 'w Agent" where
  "push_content ag c = ag\<lparr>contents := contents ag @ [c]\<rparr>"

text \<open>\<open>if (response.candidates?.[0]?.content) this.contents.push(...)\<close>\<close>

definition push_reply :: "'w Agent \<Rightarrow> GenerateContentResponse \<Rightarrow> 'w Agent" where
  "push_reply ag response =
     (case first_content response of Some c \<Rightarrow> push_content ag c | None \<Rightarrow> ag)"

definition limit_message :: "int \<Rightarrow> string" where
  "limit_message n =
     ''Agent exceeded maximum iterations ('' @ string_of_int n
       @ ''). Stopping to prevent infinite loop.''"

function run ::
  "'w Agent \<Rightarrow> Input \<Rightarrow> int \<Rightarrow> 'w env \<Rightarrow> (error + GenerateContentResponse) \<times> 'w Agent \<times> 'w env" where
  "run ag input iteration e =
     (if iteration \<ge> maxIterations ag then
        (Inl (Error (limit_message (maxIterations ag))), ag, e)
      else
        (let ag1 = push_content ag (user_turn input);
             request = build_request ag1;
             (answer, w1) = client ag1 request (world e);
             e1 = \<lparr> world = w1, trace = trace e @ [ModelCalled request] \<rparr>
         in case answer of
              Inl err \<Rightarrow> (Inl err, ag1, e1)
            | Inr response \<Rightarrow>
                (let ag2 = push_reply ag1 response
                 in case functionCalls response of
                      Some (functionCall # rest) \<Rightarrow>
                        (let (functionResponseParts, e2) =
                               handle_calls ag2 (functionCall # rest) e1
                         in run ag2 (PartsInput functionResponseParts) (iteration + 1) e2)
                    | _ \<Rightarrow> (Inr response, ag2, e1))))"
  by pat_completeness auto
termination
  by (relation "measure (\<lambda>(ag, input, iteration, e). nat (maxIterations ag - iteration))")
     (auto simp: push_content_def push_reply_def split: option.splits)

declare run.simps [simp del]

section \<open>The file system tools (tools.ts)\<close>

subsection \<open>The file system\<close>

text \<open>
  The file system the tools act on is a tree of regular files and directories (no
  symbolic links, no permissions, one process). A file holds its bytes; a directory
  holds its entries by name, in the order \<open>readdirSync\<close> lists them. A resolved path
  is the list of its components below the root; \<open>[]\<close> is the root.
\<close>

type_synonym path = "string list"

datatype node = File string | Dir "(string \<times> node) list"

fun lookup :: "node \<Rightarrow> path \<Rightarrow> node option" where
  "lookup n [] = Some n"
| "lookup (File c) (x # xs) = None"
| "lookup (Dir es) (x # xs) =
     (case map_of es x of None \<Rightarrow> None | Some child \<Rightarrow> lookup child xs)"

text \<open>\<open>put n p new\<close> sets the node at \<open>p\<close>, whose parent is an existing directory.\<close>

fun put :: "node \<Rightarrow> path \<Rightarrow> node \<Rightarrow> node" where
  "put n [] new = new"
| "put (File c) (x # xs) new = File c"
| "put (Dir es) (x # xs) new =
     (if xs = [] then Dir (AList.update x new es)
      else case map_of es x of
             None \<Rightarrow> Dir es
           | Some child \<Rightarrow> Dir (AList.update x (put child xs new) es))"

fun remove :: "node \<Rightarrow> path \<Rightarrow> node" where
  "remove n [] = n"
| "remove (File c) (x # xs) = File c"
| "remove (Dir es) (x # xs) =
     (if xs = [] then Dir (AList.delete x es)
      else case map_of es x of
             None \<Rightarrow> Dir es
           | Some child \<Rightarrow> Dir (AList.update x (remove child xs) es))"

text \<open>
  \<open>mkdir -p\<close>: every missing directory on the way is created; \<open>None\<close> when a file is
  in the way.
\<close>

fun mkdirp :: "node \<Rightarrow> path \<Rightarrow> node option" where
  "mkdirp (File c) p = None"
| "mkdirp (Dir es) [] = Some (Dir es)"
| "mkdirp (Dir es) (x # xs) =
     (case mkdirp (case map_of es x of None \<Rightarrow> Dir [] | Some child \<Rightarrow> child) xs of
        None \<Rightarrow> None
      | Some child' \<Rightarrow> Some (Dir (AList.update x child' es)))"

definition path_string :: "path \<Rightarrow> string" where
  "path_string p = (if p = [] then ''/'' else concat (map (\<lambda>x. ''/'' @ x) p))"

definition dirname :: "path \<Rightarrow> path" where
  "dirname p = butlast p"

definition basename :: "path \<Rightarrow> string" where
  "basename p = (if p = [] then [] else last p)"

text \<open>The message of the Error a failing \<open>fs\<close> call throws.\<close>

definition fs_error :: "string \<Rightarrow> string \<Rightarrow> path \<Rightarrow> string" where
  "fs_error code syscall p = code @ '', '' @ syscall @ '' '' @ quoted (path_string p)"

definition ENOENT :: string where "ENOENT = ''ENOENT: no such file or directory''"
definition ENOTDIR :: string where "ENOTDIR = ''ENOTDIR: not a directory''"
definition EISDIR :: string where "EISDIR = ''EISDIR: illegal operation on a directory''"
definition EEXIST :: string where "EEXIST = ''EEXIST: file already exists''"
definition ENOTEMPTY :: string where "ENOTEMPTY = ''ENOTEMPTY: directory not empty''"
definition EBUSY :: string where "EBUSY = ''EBUSY: resource busy or locked''"

text \<open>
  A path that does not exist: \<open>ENOTDIR\<close> when a file stands where the path needs a
  directory, \<open>ENOENT\<close> otherwise.
\<close>

fun file_on_way :: "node \<Rightarrow> path \<Rightarrow> bool" where
  "file_on_way n [] = False"
| "file_on_way (File c) (x # xs) = True"
| "file_on_way (Dir es) (x # xs) =
     (case map_of es x of None \<Rightarrow> False | Some child \<Rightarrow> file_on_way child xs)"

definition missing :: "node \<Rightarrow> path \<Rightarrow> string" where
  "missing fs p = (if file_on_way fs p then ENOTDIR else ENOENT)"

record Stats =
  isDirectory :: bool
  stat_size :: nat

definition existsSync :: "node \<Rightarrow> path \<Rightarrow> bool" where
  "existsSync fs p = (lookup fs p \<noteq> None)"

text \<open>The size of a directory depends on the platform; the tools never read it.\<close>

definition statSync :: "node \<Rightarrow> path \<Rightarrow> string + Stats" where
  "statSync fs p =
     (case lookup fs p of
        None \<Rightarrow> Inl (fs_error (missing fs p) ''stat'' p)
      | Some (File c) \<Rightarrow> Inr \<lparr> isDirectory = False, stat_size = length c \<rparr>
      | Some (Dir es) \<Rightarrow> Inr \<lparr> isDirectory = True, stat_size = 0 \<rparr>)"

definition readdirSync :: "node \<Rightarrow> path \<Rightarrow> string + string list" where
  "readdirSync fs p =
     (case lookup fs p of
        None \<Rightarrow> Inl (fs_error (missing fs p) ''scandir'' p)
      | Some (File c) \<Rightarrow> Inl (fs_error ENOTDIR ''scandir'' p)
      | Some (Dir es) \<Rightarrow> Inr (map fst es))"

definition readFileSync :: "node \<Rightarrow> path \<Rightarrow> string + string" where
  "readFileSync fs p =
     (case lookup fs p of
        None \<Rightarrow> Inl (fs_error (missing fs p) ''open'' p)
      | Some (File c) \<Rightarrow> Inr c
      | Some (Dir es) \<Rightarrow> Inl (fs_error EISDIR ''read'' p))"

definition writeFileSync :: "node \<Rightarrow> path \<Rightarrow> string \<Rightarrow> string + node" where
  "writeFileSync fs p c =
     (case lookup fs p of
        Some (Dir es) \<Rightarrow> Inl (fs_error EISDIR ''open'' p)
      | _ \<Rightarrow>
          (case lookup fs (dirname p) of
             None \<Rightarrow> Inl (fs_error (missing fs p) ''open'' p)
           | Some (File d) \<Rightarrow> Inl (fs_error ENOTDIR ''open'' p)
           | Some (Dir es) \<Rightarrow> Inr (put fs p (File c))))"

text \<open>\<open>fs.mkdirSync(dir, { recursive: true })\<close>\<close>

definition mkdirSync_recursive :: "node \<Rightarrow> path \<Rightarrow> string + node" where
  "mkdirSync_recursive fs p =
     (case mkdirp fs p of
        None \<Rightarrow> Inl (fs_error (if lookup fs p = None then ENOTDIR else EEXIST) ''mkdir'' p)
      | Some fs' \<Rightarrow> Inr fs')"

definition unlinkSync :: "node \<Rightarrow> path \<Rightarrow> string + node" where
  "unlinkSync fs p =
     (case lookup fs p of
        None \<Rightarrow> Inl (fs_error (missing fs p) ''unlink'' p)
      | Some (File c) \<Rightarrow> Inr (remove fs p)
      | Some (Dir es) \<Rightarrow> Inl (fs_error EISDIR ''unlink'' p))"

definition rmdirSync :: "node \<Rightarrow> path \<Rightarrow> string + node" where
  "rmdirSync fs p =
     (case lookup fs p of
        None \<Rightarrow> Inl (fs_error (missing fs p) ''rmdir'' p)
      | Some (File c) \<Rightarrow> Inl (fs_error ENOTDIR ''rmdir'' p)
      | Some (Dir es) \<Rightarrow>
          if es \<noteq> [] then Inl (fs_error ENOTEMPTY ''rmdir'' p)
          else if p = [] then Inl (fs_error EBUSY ''rmdir'' p)
          else Inr (remove fs p))"

text \<open>
  \<open>fs.rmSync(p, { recursive: true, force: true })\<close>: the subtree goes; a missing path
  is no error. The root itself cannot be removed: its entries go and the call throws.
\<close>

definition rmSync_recursive_force :: "node \<Rightarrow> path \<Rightarrow> (string + unit) \<times> node" where
  "rmSync_recursive_force fs p =
     (if p = [] then
        (case fs of
           Dir es \<Rightarrow> (Inl (fs_error EBUSY ''rm'' p), Dir [])
         | File c \<Rightarrow> (Inr (), fs))
      else (Inr (), remove fs p))"

subsection \<open>The runtime\<close>

text \<open>
  What the tools take from Node and the JavaScript library, as the process sees it:
  the home directory, \<open>path.join\<close> of two segments, \<open>path.resolve\<close> of one path
  against the working directory (its result split into components), and the string
  methods \<open>trim\<close> and \<open>toLowerCase\<close>.
\<close>

record runtime =
  os_homedir :: string
  path_join :: "string \<Rightarrow> string \<Rightarrow> string"
  path_resolve :: "string \<Rightarrow> path"
  str_trim :: "string \<Rightarrow> string"
  str_toLowerCase :: "string \<Rightarrow> string"

text \<open>
  \<open>s.length\<close>: the UTF-16 code units of the string whose UTF-8 bytes are \<open>s\<close>. Every
  byte that is not a continuation byte starts a code point, and a code point of four
  bytes (lead byte \<open>0xF0\<close> or more) takes two units.
\<close>

definition js_length :: "string \<Rightarrow> nat" where
  "js_length s =
     length (filter (\<lambda>c. \<not> ((128::nat) \<le> of_char c \<and> of_char c < (192::nat))) s)
       + length (filter (\<lambda>c. (240::nat) \<le> of_char c) s)"

text \<open>\<open>(size / 1024).toFixed(1)\<close>: one decimal, the nearer one, the larger on a tie.\<close>

definition toFixed1_kb :: "nat \<Rightarrow> string" where
  "toFixed1_kb n =
     (let tenths = (n * 10 + 512) div 1024
      in string_of_nat (tenths div 10) @ ''.'' @ string_of_nat (tenths mod 10))"

subsection \<open>Path resolution\<close>

definition resolvePath :: "runtime \<Rightarrow> string \<Rightarrow> path" where
  "resolvePath rt inputPath =
     (let resolved = str_trim rt inputPath;
          resolved = (if startsWith resolved ''~''
                      then path_join rt (os_homedir rt) (drop 1 resolved)
                      else resolved)
      in path_resolve rt resolved)"

record Validation =
  valid :: bool
  resolved :: path
  suggestion :: "string option"

definition validatePath :: "runtime \<Rightarrow> node \<Rightarrow> string \<Rightarrow> string + Validation" where
  "validatePath rt fs inputPath =
     (let r = resolvePath rt inputPath
      in if existsSync fs r then Inr \<lparr> valid = True, resolved = r, suggestion = None \<rparr>
         else
           (let dir = dirname r;
                base = str_toLowerCase rt (basename r)
            in if existsSync fs dir then
                 (case readdirSync fs dir of
                    Inl m \<Rightarrow> Inl m
                  | Inr files \<Rightarrow>
                      (case find (\<lambda>f. str_includes (str_toLowerCase rt f) base
                                      \<or> str_includes base (str_toLowerCase rt f)) files of
                         Some similar \<Rightarrow>
                           if similar \<noteq> [] then
                             Inr \<lparr> valid = False, resolved = r,
                                   suggestion = Some (path_string (dir @ [similar])) \<rparr>
                           else Inr \<lparr> valid = False, resolved = r, suggestion = None \<rparr>
                       | None \<Rightarrow> Inr \<lparr> valid = False, resolved = r, suggestion = None \<rparr>))
               else Inr \<lparr> valid = False, resolved = r, suggestion = None \<rparr>))"

definition did_you_mean :: "Validation \<Rightarrow> string" where
  "did_you_mean v =
     (case suggestion v of
        Some s \<Rightarrow> ''. Did you mean '' @ quoted s @ ''?''
      | None \<Rightarrow> [])"

subsection \<open>The tools\<close>

definition MAX_SIZE :: nat where
  "MAX_SIZE = 100 * 1024"

definition readFile :: "runtime \<Rightarrow> node \<Rightarrow> string \<Rightarrow> string + string" where
  "readFile rt fs filePath =
     (case validatePath rt fs filePath of
        Inl m \<Rightarrow> Inl m
      | Inr validation \<Rightarrow>
          if \<not> valid validation then
            Inl (''File not found: '' @ quoted filePath @ did_you_mean validation)
          else
            (case statSync fs (resolved validation) of
               Inl m \<Rightarrow> Inl m
             | Inr stats \<Rightarrow>
                 if isDirectory stats then
                   Inl (quoted filePath @ '' is a directory, not a file. Use list_directory instead.'')
                 else if stat_size stats > MAX_SIZE then
                   Inl (''File is too large ('' @ toFixed1_kb (stat_size stats)
                          @ ''KB). Maximum supported size is 100KB.'')
                 else readFileSync fs (resolved validation)))"

text \<open>Lines 246-250: \<open>if (!fs.existsSync(dir)) fs.mkdirSync(dir, { recursive: true })\<close>\<close>

definition ensure_parent :: "node \<Rightarrow> path \<Rightarrow> string + node" where
  "ensure_parent fs r =
     (let dir = dirname r
      in if \<not> existsSync fs dir then mkdirSync_recursive fs dir else Inr fs)"

definition writeFile :: "runtime \<Rightarrow> string \<Rightarrow> string \<Rightarrow> node \<Rightarrow> (string + string) \<times> node" where
  "writeFile rt filePath file_contents fs =
     (let r = resolvePath rt filePath
      in case ensure_parent fs r of
           Inl m \<Rightarrow> (Inl m, fs)
         | Inr fs1 \<Rightarrow>
             (case writeFileSync fs1 r file_contents of
                Inl m \<Rightarrow> (Inl m, fs1)
              | Inr fs2 \<Rightarrow>
                  (Inr (''Successfully wrote '' @ string_of_nat (js_length file_contents)
                          @ '' characters to '' @ quoted filePath),
                   fs2)))"

definition listDirectory :: "runtime \<Rightarrow> node \<Rightarrow> string \<Rightarrow> string + string list" where
  "listDirectory rt fs directoryPath =
     (case validatePath rt fs directoryPath of
        Inl m \<Rightarrow> Inl m
      | Inr validation \<Rightarrow>
          if \<not> valid validation then
            Inl (''Directory not found: '' @ quoted directoryPath @ did_you_mean validation)
          else
            (case statSync fs (resolved validation) of
               Inl m \<Rightarrow> Inl m
             | Inr stats \<Rightarrow>
                 if \<not> isDirectory stats then
                   Inl (quoted directoryPath @ '' is a file, not a directory. Use read_file instead.'')
                 else readdirSync fs (resolved validation)))"

definition deleteFile :: "runtime \<Rightarrow> string \<Rightarrow> node \<Rightarrow> (string + string) \<times> node" where
  "deleteFile rt filePath fs =
     (case validatePath rt fs filePath of
        Inl m \<Rightarrow> (Inl m, fs)
      | Inr validation \<Rightarrow>
          if \<not> valid validation then
            (Inl (''File not found: '' @ quoted filePath @ did_you_mean validation), fs)
          else
            (case statSync fs (resolved validation) of
               Inl m \<Rightarrow> (Inl m, fs)
             | Inr stats \<Rightarrow>
                 if isDirectory stats then
                   (Inl (quoted filePath @ '' is a directory, not a file. Use delete_directory instead.''), fs)
                 else
                   (case unlinkSync fs (resolved validation) of
                      Inl m \<Rightarrow> (Inl m, fs)
                    | Inr fs' \<Rightarrow> (Inr (''Successfully deleted file: '' @ quoted filePath), fs'))))"

text \<open>\<open>recursive: boolean = false\<close>: \<open>None\<close> is the argument left out.\<close>

definition deleteDirectory ::
  "runtime \<Rightarrow> string \<Rightarrow> bool option \<Rightarrow> node \<Rightarrow> (string + string) \<times> node" where
  "deleteDirectory rt directoryPath recursive_arg fs =
     (let recursive = (case recursive_arg of None \<Rightarrow> False | Some b \<Rightarrow> b)
      in case validatePath rt fs directoryPath of
           Inl m \<Rightarrow> (Inl m, fs)
         | Inr validation \<Rightarrow>
             if \<not> valid validation then
               (Inl (''Directory not found: '' @ quoted directoryPath @ did_you_mean validation), fs)
             else
               (case statSync fs (resolved validation) of
                  Inl m \<Rightarrow> (Inl m, fs)
                | Inr stats \<Rightarrow>
                    if \<not> isDirectory stats then
                      (Inl (quoted directoryPath @ '' is a file, not a directory. Use delete_file instead.''), fs)
                    else if \<not> recursive then
                      (case readdirSync fs (resolved validation) of
                         Inl m \<Rightarrow> (Inl m, fs)
                       | Inr entries \<Rightarrow>
                           if length entries > 0 then
                             (Inl (''Directory '' @ quoted directoryPath @ '' is not empty (contains ''
                                     @ string_of_nat (length entries) @ '' items). ''
                                     @ ''Use recursive=true to delete directory and all contents, or remove contents first.''),
                              fs)
                           else
                             (case rmdirSync fs (resolved validation) of
                                Inl m \<Rightarrow> (Inl m, fs)
                              | Inr fs' \<Rightarrow>
                                  (Inr (''Successfully deleted empty directory: '' @ quoted directoryPath), fs')))
                    else
                      (case rmSync_recursive_force fs (resolved validation) of
                         (Inl m, fs') \<Rightarrow> (Inl m, fs')
                       | (Inr u, fs') \<Rightarrow>
                           (Inr (''Successfully deleted directory and all contents: ''
                                   @ quoted directoryPath),
                            fs'))))"

subsection \<open>The tool declarations and the registry\<close>

definition string_param :: "string \<Rightarrow> jsval" where
  "string_param d = JObj [(''type'', JStr ''string''), (''description'', JStr d)]"

definition object_schema :: "(string \<times> jsval) list \<Rightarrow> string list \<Rightarrow> jsval" where
  "object_schema props req =
     JObj [(''type'', JStr ''object''), (''properties'', JObj props),
           (''required'', JArr (map JStr req))]"

definition readFileDefinition :: ToolDefinition where
  "readFileDefinition =
     \<lparr> name = ''read_file'',
       description = ''Reads and returns the contents of a file at the specified path. ''
         @ ''Use this to examine file contents, check configurations, or read source code. ''
         @ ''Supports relative paths (./file), home directory (~), and absolute paths.'',
       parameters = object_schema
         [(''file_path'', string_param
             (''Path to the file to read. Examples: './config.json', '~/documents/notes.txt', '/etc/hosts''
                @ [CHR 0x27]))]
         [''file_path''] \<rparr>"

definition listDirectoryDefinition :: ToolDefinition where
  "listDirectoryDefinition =
     \<lparr> name = ''list_directory'',
       description = ''Lists all files and folders in a directory. ''
         @ ''Returns an array of filenames. Use this to explore directory structure ''
         @ ''before reading or writing files. Use '.' for current directory.'',
       parameters = object_schema
         [(''directory_path'', string_param
             (''Path to the directory to list. Examples: '.', './src', '~/projects'' @ [CHR 0x27]))]
         [''directory_path''] \<rparr>"

definition writeFileDefinition :: ToolDefinition where
  "writeFileDefinition =
     \<lparr> name = ''write_file'',
       description = ''Creates or overwrites a file with the specified contents. ''
         @ ''WARNING: This will overwrite existing files without confirmation. ''
         @ ''Use read_file first to check if file exists if needed.'',
       parameters = object_schema
         [(''file_path'', string_param ''Path where the file will be created/overwritten.''),
          (''contents'', string_param ''The text content to write to the file.'')]
         [''file_path'', ''contents''] \<rparr>"

definition deleteFileDefinition :: ToolDefinition where
  "deleteFileDefinition =
     \<lparr> name = ''delete_file'',
       description = ''Permanently deletes a file at the specified path. ''
         @ ''WARNING: This action is irreversible. The file cannot be recovered. ''
         @ ''Use list_directory first to verify the file exists.'',
       parameters = object_schema
         [(''file_path'', string_param
             (''Path to the file to delete. Examples: './temp.txt', '~/old-file.log'' @ [CHR 0x27]))]
         [''file_path''] \<rparr>"

definition deleteDirectoryDefinition :: ToolDefinition where
  "deleteDirectoryDefinition =
     \<lparr> name = ''delete_directory'',
       description = ''Permanently deletes a directory and optionally all its contents. ''
         @ ''WARNING: This action is irreversible. Use with extreme caution. ''
         @ ''Use list_directory first to verify contents before deletion.'',
       parameters = object_schema
         [(''directory_path'', string_param
             (''Path to the directory to delete. Examples: './temp', '~/old-folder'' @ [CHR 0x27])),
          (''recursive'', JObj [(''type'', JStr ''boolean''),
             (''description'', JStr ''If true, deletes directory and all contents. If false, only deletes if empty. Default: false'')])]
         [''directory_path''] \<rparr>"

text \<open>
  How JavaScript calls a tool function with a list of values: a parameter past the end
  of the list is \<open>undefined\<close> (\<open>None\<close>), a value past the parameters is ignored.
  Every tool first calls \<open>trim\<close> on its path: a path that is not a string is a
  \<open>TypeError\<close> there. \<open>fs.writeFileSync\<close> throws one for data that is not a string
  (its message is cut after the list of types).
\<close>

definition argument :: "jsval list \<Rightarrow> nat \<Rightarrow> jsval option" where
  "argument xs i = (if i < length xs then Some (xs ! i) else None)"

definition trim_TypeError :: "jsval option \<Rightarrow> string" where
  "trim_TypeError v =
     (case v of
        None \<Rightarrow> ''Cannot read properties of undefined (reading 'trim')''
      | Some JNull \<Rightarrow> ''Cannot read properties of null (reading 'trim')''
      | Some _ \<Rightarrow> ''inputPath.trim is not a function'')"

definition data_TypeError :: string where
  "data_TypeError =
     ''The '' @ [CHR 0x22] @ ''data'' @ [CHR 0x22]
       @ '' argument must be of type string or an instance of Buffer, TypedArray, or DataView.''"

definition truthy :: "jsval \<Rightarrow> bool" where
  "truthy v =
     (case v of
        JNull \<Rightarrow> False
      | JBool b \<Rightarrow> b
      | JNum i \<Rightarrow> i \<noteq> 0
      | JStr s \<Rightarrow> s \<noteq> []
      | JArr vs \<Rightarrow> True
      | JObj kvs \<Rightarrow> True)"

definition readFile_function :: "runtime \<Rightarrow> jsval list \<Rightarrow> node \<Rightarrow> (string + jsval) \<times> node" where
  "readFile_function rt xs fs =
     (case argument xs 0 of
        Some (JStr filePath) \<Rightarrow> (map_sum id JStr (readFile rt fs filePath), fs)
      | v \<Rightarrow> (Inl (trim_TypeError v), fs))"

definition writeFile_function :: "runtime \<Rightarrow> jsval list \<Rightarrow> node \<Rightarrow> (string + jsval) \<times> node" where
  "writeFile_function rt xs fs =
     (case argument xs 0 of
        Some (JStr filePath) \<Rightarrow>
          (case argument xs 1 of
             Some (JStr file_contents) \<Rightarrow>
               (case writeFile rt filePath file_contents fs of (r, fs') \<Rightarrow> (map_sum id JStr r, fs'))
           | _ \<Rightarrow>
               (case ensure_parent fs (resolvePath rt filePath) of
                  Inl m \<Rightarrow> (Inl m, fs)
                | Inr fs1 \<Rightarrow> (Inl data_TypeError, fs1)))
      | v \<Rightarrow> (Inl (trim_TypeError v), fs))"

definition listDirectory_function :: "runtime \<Rightarrow> jsval list \<Rightarrow> node \<Rightarrow> (string + jsval) \<times> node" where
  "listDirectory_function rt xs fs =
     (case argument xs 0 of
        Some (JStr directoryPath) \<Rightarrow>
          (map_sum id (\<lambda>names. JArr (map JStr names)) (listDirectory rt fs directoryPath), fs)
      | v \<Rightarrow> (Inl (trim_TypeError v), fs))"

definition deleteFile_function :: "runtime \<Rightarrow> jsval list \<Rightarrow> node \<Rightarrow> (string + jsval) \<times> node" where
  "deleteFile_function rt xs fs =
     (case argument xs 0 of
        Some (JStr filePath) \<Rightarrow>
          (case deleteFile rt filePath fs of (r, fs') \<Rightarrow> (map_sum id JStr r, fs'))
      | v \<Rightarrow> (Inl (trim_TypeError v), fs))"

definition deleteDirectory_function :: "runtime \<Rightarrow> jsval list \<Rightarrow> node \<Rightarrow> (string + jsval) \<times> node" where
  "deleteDirectory_function rt xs fs =
     (case argument xs 0 of
        Some (JStr directoryPath) \<Rightarrow>
          (case deleteDirectory rt directoryPath (map_option truthy (argument xs 1)) fs of
             (r, fs') \<Rightarrow> (map_sum id JStr r, fs'))
      | v \<Rightarrow> (Inl (trim_TypeError v), fs))"

text \<open>\<open>export const tools: ToolsMap\<close>\<close>

definition tools_registry :: "runtime \<Rightarrow> node ToolsMap" where
  "tools_registry rt =
     [(''read_file'',
         \<lparr> tool_definition = readFileDefinition, tool_function = readFile_function rt,
           requiresConfirmation = Some False \<rparr>),
      (''write_file'',
         \<lparr> tool_definition = writeFileDefinition, tool_function = writeFile_function rt,
           requiresConfirmation = Some True \<rparr>),
      (''list_directory'',
         \<lparr> tool_definition = listDirectoryDefinition, tool_function = listDirectory_function rt,
           requiresConfirmation = Some False \<rparr>),
      (''delete_file'',
         \<lparr> tool_definition = deleteFileDefinition, tool_function = deleteFile_function rt,
           requiresConfirmation = Some True \<rparr>),
      (''delete_directory'',
         \<lparr> tool_definition = deleteDirectoryDefinition, tool_function = deleteDirectory_function rt,
           requiresConfirmation = Some True \<rparr>)]"

section \<open>The specification's reading of the argument order\<close>

text \<open>
  The names of a tool's parameters in the order its schema declares them (the keys of
  \<open>parameters.properties\<close>), and the positional arguments the specification describes:
  the value bound to each declared name, in that order (\<open>None\<close> for a name the
  mapping leaves out).
\<close>

definition declared_parameters :: "ToolDefinition \<Rightarrow> string list" where
  "declared_parameters d =
     (case parameters d of
        JObj kvs \<Rightarrow> (case map_of kvs ''properties'' of
                       Some (JObj props) \<Rightarrow> Object_keys props
                     | _ \<Rightarrow> [])
      | _ \<Rightarrow> [])"

definition spec_positional_arguments :: "ToolDefinition \<Rightarrow> args \<Rightarrow> jsval option list" where
  "spec_positional_arguments d a = map (map_of a) (declared_parameters d)"

section \<open>Fixtures\<close>

text \<open>
  The fixtures of the repository's tests: a model client that answers with scripted
  responses one after the other (\<open>mockResolvedValueOnce\<close>), \<open>createMockResponse\<close> and
  \<open>createMockTools\<close>. The outside world of these agents is the list of responses
  still to come.
\<close>

definition scripted_client ::
  "Request \<Rightarrow> GenerateContentResponse list
     \<Rightarrow> (error + GenerateContentResponse) \<times> GenerateContentResponse list" where
  "scripted_client request w =
     (case w of
        [] \<Rightarrow> (Inl (Error ''no response scripted''), [])
      | r # rs \<Rightarrow> (Inr r, rs))"

definition mock_call :: "string \<times> args \<Rightarrow> FunctionCall" where
  "mock_call fc = \<lparr> fc_name = Some (fst fc), fc_args = Some (snd fc) \<rparr>"

definition createMockResponse ::
  "string \<Rightarrow> (string \<times> args) list option \<Rightarrow> GenerateContentResponse" where
  "createMockResponse t calls =
     \<lparr> candidates = Some [\<lparr> content = Some
          \<lparr> role = ''model'',
            parts = (case calls of
                       Some cs \<Rightarrow> map (\<lambda>fc. FunctionCallPart (mock_call fc)) cs
                     | None \<Rightarrow> [TextPart t]) \<rparr> \<rparr>],
       functionCalls = map_option (map mock_call) calls,
       response_text = Some t \<rparr>"

definition test_tool :: "'w Tool" where
  "test_tool =
     \<lparr> tool_definition =
         \<lparr> name = ''test_tool'', description = ''A test tool'',
           parameters = JObj [(''type'', JStr ''object''),
             (''properties'', JObj [(''input'', JObj [(''type'', JStr ''string'')])]),
             (''required'', JArr [JStr ''input''])] \<rparr>,
       tool_function =
         (\<lambda>xs w. (Inr (JStr (''Result: '' @ (case argument xs 0 of
                                               None \<Rightarrow> ''undefined''
                                             | Some v \<Rightarrow> String_js v))), w)),
       requiresConfirmation = Some False \<rparr>"

definition dangerous_tool :: "'w Tool" where
  "dangerous_tool =
     \<lparr> tool_definition =
         \<lparr> name = ''dangerous_tool'',
           description = ''A dangerous tool that requires confirmation'',
           parameters = JObj [(''type'', JStr ''object''), (''properties'', JObj [])] \<rparr>,
       tool_function = (\<lambda>xs w. (Inr (JStr ''Danger executed''), w)),
       requiresConfirmation = Some True \<rparr>"

definition createMockTools :: "'w ToolsMap" where
  "createMockTools = [(''test_tool'', test_tool), (''dangerous_tool'', dangerous_tool)]"

definition mock_config :: "int \<Rightarrow> GenerateContentResponse list AgentConfig" where
  "mock_config n =
     \<lparr> cfg_model = None, cfg_tools = Some createMockTools, cfg_systemInstruction = None,
       cfg_maxIterations = Some n, cfg_onToolCall = None, cfg_confirmAction = None \<rparr>"

text \<open>An agent over the mock tools, with the hooks of the tests that set them.\<close>

definition mock_agent :: "int \<Rightarrow> GenerateContentResponse list Agent" where
  "mock_agent n = new_Agent scripted_client (mock_config n)"

definition logging_agent :: "GenerateContentResponse list Agent" where
  "logging_agent =
     new_Agent scripted_client ((mock_config 15)\<lparr> cfg_onToolCall := Some (\<lambda>n a w. w) \<rparr>)"

definition denying_agent :: "GenerateContentResponse list Agent" where
  "denying_agent =
     new_Agent scripted_client
       ((mock_config 15)\<lparr> cfg_onToolCall := Some (\<lambda>n a w. w),
                          cfg_confirmAction := Some (\<lambda>n a w. (False, w)) \<rparr>)"

definition start_env :: "'w \<Rightarrow> 'w env" where
  "start_env w = \<lparr> world = w, trace = [] \<rparr>"

text \<open>
  Responses without content (a blocked prompt has no candidates; a candidate may carry
  no content), and the calls and results of the examples below.
\<close>

definition blocked_response :: GenerateContentResponse where
  "blocked_response = \<lparr> candidates = None, functionCalls = None, response_text = None \<rparr>"

definition contentless_response :: GenerateContentResponse where
  "contentless_response =
     \<lparr> candidates = Some [\<lparr> content = None \<rparr>], functionCalls = None, response_text = None \<rparr>"

definition three_calls :: "FunctionCall list" where
  "three_calls =
     [mock_call (''test_tool'', [(''input'', JStr ''first'')]),
      mock_call (''nonexistent_tool'', []),
      mock_call (''dangerous_tool'', [])]"

definition three_results :: "Part list" where
  "three_results =
     [FunctionResponse ''test_tool'' (ResultOf (JStr ''Result: first'')),
      FunctionResponse ''nonexistent_tool''
        (ErrorOf ''Tool 'nonexistent_tool' not found. Available tools: test_tool, dangerous_tool''),
      FunctionResponse ''dangerous_tool'' (ErrorOf ''Action cancelled by user.'')]"

definition denied_reply :: GenerateContentResponse where
  "denied_reply =
     createMockResponse [] (Some [(''dangerous_tool'', []), (''test_tool'', [(''input'', JStr ''x'')])])"

text \<open>
  A runtime for the examples: absolute POSIX paths without \<open>..\<close>, home directory
  \<open>/home/user\<close>, blanks trimmed, ASCII letters lowered.
\<close>

fun split_at :: "char \<Rightarrow> string \<Rightarrow> string list" where
  "split_at c [] = [[]]"
| "split_at c (x # xs) =
     (if x = c then [] # split_at c xs
      else case split_at c xs of
             [] \<Rightarrow> [[x]]
           | y # ys \<Rightarrow> (x # y) # ys)"

definition lower_char :: "char \<Rightarrow> char" where
  "lower_char c =
     (if (65::nat) \<le> of_char c \<and> of_char c \<le> (90::nat) then char_of (of_char c + (32::nat)) else c)"

definition example_runtime :: runtime where
  "example_runtime =
     \<lparr> os_homedir = ''/home/user'',
       path_join = (\<lambda>a b. a @ ''/'' @ b),
       path_resolve = (\<lambda>s. filter (\<lambda>x. x \<noteq> [] \<and> x \<noteq> ''.'') (split_at CHR ''/'' s)),
       str_trim = (\<lambda>s. rev (dropWhile (\<lambda>c. c = CHR '' '') (rev (dropWhile (\<lambda>c. c = CHR '' '') s)))),
       str_toLowerCase = map lower_char \<rparr>"

text \<open>
  \<open>/tmp/with-items\<close> holds three files (test "should report item count in error
  message"); \<open>/tmp/out\<close> is empty.
\<close>

definition example_fs :: node where
  "example_fs =
     Dir [(''tmp'',
           Dir [(''with-items'',
                 Dir [(''a.txt'', File ''a''), (''b.txt'', File ''b''), (''c.txt'', File ''c'')]),
                (''out'', Dir [])])]"

text \<open>An agent over the registry of tools.ts; its model client is not used.\<close>

definition fs_agent :: "node Agent" where
  "fs_agent =
     new_Agent (\<lambda>request fs. (Inl (Error ''no model''), fs))
       \<lparr> cfg_model = None, cfg_tools = Some (tools_registry example_runtime),
         cfg_systemInstruction = None, cfg_maxIterations = None,
         cfg_onToolCall = None, cfg_confirmAction = None \<rparr>"

text \<open>
  Calls of \<open>write_file\<close> whose arguments come in the declared order and in the other
  order, the file system after each, and a reply that asks for a tool again.
\<close>

definition ordered_call :: FunctionCall where
  "ordered_call =
     mock_call (''write_file'', [(''file_path'', JStr ''/tmp/out/a.txt''), (''contents'', JStr ''hello'')])"

definition swapped_call :: FunctionCall where
  "swapped_call =
     mock_call (''write_file'', [(''contents'', JStr ''hello''), (''file_path'', JStr ''/tmp/out/a.txt'')])"

definition write_file_tool :: "node Tool" where
  "write_file_tool =
     \<lparr> tool_definition = writeFileDefinition, tool_function = writeFile_function example_runtime,
       requiresConfirmation = Some True \<rparr>"

definition fs_after_ordered :: node where
  "fs_after_ordered =
     Dir [(''tmp'',
           Dir [(''with-items'',
                 Dir [(''a.txt'', File ''a''), (''b.txt'', File ''b''), (''c.txt'', File ''c'')]),
                (''out'', Dir [(''a.txt'', File ''hello'')])])]"

definition fs_after_swapped :: node where
  "fs_after_swapped =
     Dir [(''tmp'',
           Dir [(''with-items'',
                 Dir [(''a.txt'', File ''a''), (''b.txt'', File ''b''), (''c.txt'', File ''c'')]),
                (''out'', Dir [])]),
          (''hello'', File ''/tmp/out/a.txt'')]"

definition looping_reply :: GenerateContentResponse where
  "looping_reply = createMockResponse [] (Some [(''test_tool'', [(''input'', JStr ''1'')])])"

text \<open>
  \<open>caf\<close> and an e with an acute accent, which takes two bytes: four UTF-16 units,
  five bytes.
\<close>

definition unicode_text :: string where
  "unicode_text = ''caf'' @ [CHR 0xC3, CHR 0xA9]"

section \<open>Properties of the agent loop\<close>

subsection \<open>Auxiliary facts\<close>

lemma str_includes_startsWith: "startsWith s n \<Longrightarrow> str_includes s n"
  by (cases s) (auto simp: startsWith_def)

lemma str_includes_append: "str_includes (a @ n @ b) n"
proof (induction a)
  case Nil
  show ?case by (rule str_includes_startsWith) (simp add: startsWith_def)
next
  case (Cons c a)
  then show ?case by simp
qed

lemma limit_message_mentions: "str_includes (limit_message n) ''maximum iterations''"
proof -
  have "limit_message n = ''Agent exceeded '' @ ''maximum iterations'' @ ('' ('' @ string_of_int n @ ''). Stopping to prevent infinite loop.'')"
    by (simp add: limit_message_def)
  then show ?thesis by (simp only: str_includes_append)
qed

lemma lookup_tool_push [simp]: "lookup_tool (push_content ag c) = lookup_tool ag"
  by (rule ext) (simp add: lookup_tool_def push_content_def)

lemma lookup_tool_reply [simp]: "lookup_tool (push_reply ag r) = lookup_tool ag"
  by (simp add: push_reply_def split: option.splits)

lemma fire_onToolCall_push [simp]: "fire_onToolCall (push_content ag c) = fire_onToolCall ag"
  by (rule ext)+ (simp add: fire_onToolCall_def push_content_def)

lemma not_found_message_push [simp]: "not_found_message (push_content ag c) = not_found_message ag"
  by (rule ext)+ (simp add: not_found_message_def push_content_def)

lemma confirm_step_push [simp]: "confirm_step (push_content ag c) = confirm_step ag"
  by (rule ext)+ (simp add: confirm_step_def push_content_def)

lemma execute_step_push [simp]: "execute_step (push_content ag c) = execute_step ag"
  by (rule ext)+ (simp add: execute_step_def)

lemma handle_call_push [simp]: "handle_call (push_content ag c) = handle_call ag"
  by (rule ext)+ (simp add: handle_call_def Let_def split_beta cong: registry_entry.case_cong if_cong)

lemma handle_call_reply [simp]: "handle_call (push_reply ag r) = handle_call ag"
  by (simp add: push_reply_def split: option.splits)

lemma handle_calls_cong_agent:
  "handle_call ag' = handle_call ag \<Longrightarrow> handle_calls ag' cs e = handle_calls ag cs e"
  by (induction cs arbitrary: e) simp_all

lemma handle_calls_length: "length (fst (handle_calls ag cs e)) = length cs"
  by (induction cs arbitrary: e) (simp_all add: split_beta Let_def)

lemma handle_calls_append:
  "handle_calls ag (xs @ ys) e =
     (fst (handle_calls ag xs e) @ fst (handle_calls ag ys (snd (handle_calls ag xs e))),
      snd (handle_calls ag ys (snd (handle_calls ag xs e))))"
  by (induction xs arbitrary: e) (simp_all add: split_beta Let_def)

lemma handle_calls_nth:
  "i < length cs \<Longrightarrow>
     fst (handle_calls ag cs e) ! i =
       fst (handle_call ag (cs ! i) (snd (handle_calls ag (take i cs) e)))"
proof (induction cs arbitrary: e i)
  case Nil
  then show ?case by simp
next
  case (Cons c cs)
  show ?case
  proof (cases i)
    case 0
    then show ?thesis by (simp add: split_beta Let_def)
  next
    case (Suc j)
    with Cons.prems have "j < length cs" by simp
    from Cons.IH[OF this] Suc show ?thesis by (simp add: split_beta Let_def)
  qed
qed

lemma handle_call_part:
  "\<exists>r. fst (handle_call ag fc e) = FunctionResponse (toolName_of fc) r"
  by (simp add: handle_call_def Let_def split_beta split: registry_entry.splits)

lemma run_limit:
  "maxIterations ag \<le> iteration \<Longrightarrow>
     run ag input iteration e = (Inl (Error (limit_message (maxIterations ag))), ag, e)"
  by (subst run.simps) simp

lemma client_push [simp]: "client (push_content ag c) = client ag"
  by (simp add: push_content_def)

lemma maxIterations_push [simp]: "maxIterations (push_content ag c) = maxIterations ag"
  by (simp add: push_content_def)

lemma maxIterations_reply [simp]: "maxIterations (push_reply ag r) = maxIterations ag"
  by (simp add: push_reply_def split: option.splits)

lemma run_transport_failure:
  assumes "iteration < maxIterations ag"
    and "client ag (build_request (push_content ag (user_turn input))) (world e) = (Inl err, w1)"
  shows "run ag input iteration e =
       (Inl err, push_content ag (user_turn input),
        \<lparr> world = w1, trace = trace e @ [ModelCalled (build_request (push_content ag (user_turn input)))] \<rparr>)"
  using assms by (subst run.simps) (simp add: Let_def)

lemma run_final:
  assumes "iteration < maxIterations ag"
    and "client ag (build_request (push_content ag (user_turn input))) (world e) = (Inr response, w1)"
    and "functionCalls response = None \<or> functionCalls response = Some []"
  shows "run ag input iteration e =
       (Inr response, push_reply (push_content ag (user_turn input)) response,
        \<lparr> world = w1, trace = trace e @ [ModelCalled (build_request (push_content ag (user_turn input)))] \<rparr>)"
  using assms by (subst run.simps) (auto simp add: Let_def)

lemma run_recurse:
  assumes "iteration < maxIterations ag"
    and "client ag (build_request (push_content ag (user_turn input))) (world e) = (Inr response, w1)"
    and "functionCalls response = Some calls" and "calls \<noteq> []"
    and "handle_calls ag calls
      \<lparr> world = w1, trace = trace e @ [ModelCalled (build_request (push_content ag (user_turn input)))] \<rparr>
     = (ps, e2)"
  shows "run ag input iteration e =
       run (push_reply (push_content ag (user_turn input)) response) (PartsInput ps) (iteration + 1) e2"
proof -
  let ?ag2 = "push_reply (push_content ag (user_turn input)) response"
  let ?e1 = "\<lparr> world = w1, trace = trace e @ [ModelCalled (build_request (push_content ag (user_turn input)))] \<rparr>"
  have "handle_calls ?ag2 calls ?e1 = handle_calls ag calls ?e1"
    by (rule handle_calls_cong_agent) simp
  then have hc: "handle_calls ?ag2 calls ?e1 = (ps, e2)"
    using assms(5) by simp
  obtain c rest where cs: "calls = c # rest"
    using assms(4) by (cases calls) auto
  show ?thesis
    using assms(1,2,3) hc unfolding cs
    by (subst run.simps) (simp add: Let_def del: handle_calls.simps)
qed

lemma fire_onToolCall_trace: "\<exists>t. trace (fire_onToolCall ag n a e) = trace e @ t"
  by (simp add: fire_onToolCall_def split: option.splits)

lemma confirm_step_trace: "\<exists>t. trace (snd (confirm_step ag tool n a e)) = trace e @ t"
  by (simp add: confirm_step_def split_beta split: option.splits)

lemma execute_step_trace: "\<exists>t. trace (snd (execute_step ag tool n a e)) = trace e @ t"
proof -
  obtain t where "trace (fire_onToolCall ag n a e) = trace e @ t"
    using fire_onToolCall_trace by blast
  then show ?thesis
    by (simp add: execute_step_def Let_def split_beta split: sum.splits)
qed

lemma handle_call_trace: "\<exists>t. trace (snd (handle_call ag fc e)) = trace e @ t"
proof (cases "lookup_tool ag (toolName_of fc)")
  case Absent
  then show ?thesis
    using fire_onToolCall_trace[of ag "toolName_of fc" "toolArgs_of fc" e]
    by (simp add: handle_call_def Let_def)
next
  case Inherited
  then show ?thesis
    using fire_onToolCall_trace[of ag "toolName_of fc" "toolArgs_of fc" e]
    by (simp add: handle_call_def Let_def)
next
  case (Registered tool)
  let ?c = "confirm_step ag tool (toolName_of fc) (toolArgs_of fc) e"
  obtain t1 where t1: "trace (snd ?c) = trace e @ t1"
    using confirm_step_trace by blast
  obtain t2 where t2: "trace (snd (execute_step ag tool (toolName_of fc) (toolArgs_of fc) (snd ?c))) = trace (snd ?c) @ t2"
    using execute_step_trace by blast
  show ?thesis
    using Registered t1 t2 by (simp add: handle_call_def Let_def split_beta)
qed

lemma handle_calls_trace: "\<exists>t. trace (snd (handle_calls ag cs e)) = trace e @ t"
proof (induction cs arbitrary: e)
  case Nil
  show ?case by simp
next
  case (Cons c cs)
  obtain t1 where t1: "trace (snd (handle_call ag c e)) = trace e @ t1"
    using handle_call_trace by blast
  obtain t2 where "trace (snd (handle_calls ag cs (snd (handle_call ag c e)))) = trace (snd (handle_call ag c e)) @ t2"
    using Cons.IH by blast
  with t1 show ?case by (simp add: split_beta Let_def)
qed

lemma run_trace_grows: "\<exists>t. trace (snd (snd (run ag input iteration e))) = trace e @ t"
proof (induction ag input iteration e rule: run.induct)
  case (1 ag input iteration e)
  let ?ag1 = "push_content ag (user_turn input)"
  let ?rq = "build_request ?ag1"
  show ?case
  proof (cases "maxIterations ag \<le> iteration")
    case True
    then show ?thesis by (simp add: run_limit)
  next
    case False
    then have lt: "iteration < maxIterations ag" by simp
    obtain answer w1 where cl: "client ag ?rq (world e) = (answer, w1)"
      by (cases "client ag ?rq (world e)") auto
    let ?e1 = "\<lparr> world = w1, trace = trace e @ [ModelCalled ?rq] \<rparr>"
    show ?thesis
    proof (cases answer)
      case (Inl err)
      with lt cl show ?thesis by (simp add: run_transport_failure)
    next
      case (Inr response)
      note cl' = cl[unfolded Inr]
      show ?thesis
      proof (cases "functionCalls response = None \<or> functionCalls response = Some []")
        case True
        from run_final[OF lt cl' True] show ?thesis by simp
      next
        case False
        then obtain c rest where fc: "functionCalls response = Some (c # rest)"
          by (cases "functionCalls response"; cases "the (functionCalls response)") auto
        let ?ag2 = "push_reply ?ag1 response"
        obtain ps e2 where hc: "handle_calls ag (c # rest) ?e1 = (ps, e2)"
          by (cases "handle_calls ag (c # rest) ?e1") auto
        have hc2: "handle_calls ?ag2 (c # rest) ?e1 = (ps, e2)"
          using hc handle_calls_cong_agent[of ?ag2 ag "c # rest" ?e1] by simp
        have eq: "run ag input iteration e = run ?ag2 (PartsInput ps) (iteration + 1) e2"
          using run_recurse[OF lt cl' fc _ hc] by simp
        have "\<exists>t. trace (snd (snd (run ?ag2 (PartsInput ps) (iteration + 1) e2))) = trace e2 @ t"
          using "1.IH"[OF \<open>\<not> maxIterations ag \<le> iteration\<close> refl refl refl _ refl _ refl fc refl refl, of "Inr response" w1 ps e2]
            cl hc2 Inr by simp
        moreover have "\<exists>t. trace e2 = trace ?e1 @ t"
          using handle_calls_trace[of ag "c # rest" ?e1] hc by simp
        ultimately show ?thesis using eq by auto
      qed
    qed
  qed
qed

subsection \<open>The iteration limit\<close>

text \<open>
  C7. No limit hook exists in the agent, so none is ever configured. When the iteration
  counter has reached \<open>maxIterations\<close> at the start of a round, \<open>run\<close> throws an Error
  whose message mentions "maximum iterations"; the agent (its Conversation State) and
  the world (no model call) are as they were.
\<close>

theorem run_rejects_at_limit:
  assumes "maxIterations ag \<le> iteration"
  shows "run ag input iteration e = (Inl (Error (limit_message (maxIterations ag))), ag, e)
       \<and> str_includes (limit_message (maxIterations ag)) ''maximum iterations''"
  using assms by (simp add: run_limit limit_message_mentions)

theorem run_rejects_at_limit_witness:
  "maxIterations (mock_agent 2) \<le> 2
   \<and> run (mock_agent 2) (StringInput ''Loop forever'') 2 (start_env [])
       = (Inl (Error ''Agent exceeded maximum iterations (2). Stopping to prevent infinite loop.''),
          mock_agent 2, start_env [])
   \<and> str_includes ''Agent exceeded maximum iterations (2). Stopping to prevent infinite loop.''
         ''maximum iterations''"
proof -
  have m: "maxIterations (mock_agent 2) = 2"
    by (simp add: mock_agent_def new_Agent_def mock_config_def)
  have l: "limit_message 2 = ''Agent exceeded maximum iterations (2). Stopping to prevent infinite loop.''"
    by (simp add: limit_message_def string_of_int_def digit_char_def)
  show ?thesis
    using run_rejects_at_limit[of "mock_agent 2" 2 "StringInput ''Loop forever''" "start_env []"]
    by (simp add: m l)
qed


subsection \<open>Facts about the fixtures and the steps of the loop\<close>

lemma mock_agent_fields [simp]:
  "client (mock_agent n) = scripted_client"
  "maxIterations (mock_agent n) = n"
  "contents (mock_agent n) = []"
  "tools (mock_agent n) = Some createMockTools"
  "onToolCall (mock_agent n) = None"
  "confirmAction (mock_agent n) = None"
  by (simp_all add: mock_agent_def new_Agent_def mock_config_def)

lemma denying_agent_fields [simp]:
  "client denying_agent = scripted_client"
  "maxIterations denying_agent = 15"
  "contents denying_agent = []"
  "tools denying_agent = Some createMockTools"
  "onToolCall denying_agent = Some (\<lambda>n a w. w)"
  "confirmAction denying_agent = Some (\<lambda>n a w. (False, w))"
  by (simp_all add: denying_agent_def new_Agent_def mock_config_def)

lemma lookup_mock_tools [simp]:
  "tools ag = Some createMockTools \<Longrightarrow> lookup_tool ag ''test_tool'' = Registered test_tool"
  "tools ag = Some createMockTools \<Longrightarrow> lookup_tool ag ''dangerous_tool'' = Registered dangerous_tool"
  "tools ag = Some createMockTools \<Longrightarrow> lookup_tool ag ''nonexistent_tool'' = Absent"
  by (simp_all add: lookup_tool_def createMockTools_def Object_prototype_names_def)

lemma mock_call_simps [simp]:
  "toolName_of (mock_call (n, a)) = n"
  "toolArgs_of (mock_call (n, a)) = a"
  by (simp_all add: mock_call_def toolName_of_def toolArgs_of_def)

lemma handle_three_calls:
  "handle_calls denying_agent three_calls \<lparr> world = w, trace = t \<rparr> =
     (three_results,
      \<lparr> world = w,
        trace = t @ [ToolCallLogged ''test_tool'' [(''input'', JStr ''first'')],
                     ToolInvoked ''test_tool'' [JStr ''first''],
                     ToolCallLogged ''nonexistent_tool'' [],
                     ConfirmAsked ''dangerous_tool'' [] False] \<rparr>)"
  by (simp add: three_calls_def three_results_def handle_call_def confirm_step_def execute_step_def
        fire_onToolCall_def not_found_message_def test_tool_def dangerous_tool_def
        Object_values_def Object_keys_def argument_def createMockTools_def quoted_def Let_def)

lemma handle_call_denied:
  assumes "lookup_tool ag (toolName_of call) = Registered tool"
    and "requiresConfirmation tool = Some True"
    and "confirmAction ag = Some hook"
    and "hook (toolName_of call) (toolArgs_of call) (world e) = (False, w1)"
  shows "handle_call ag call e =
           (FunctionResponse (toolName_of call) (ErrorOf ''Action cancelled by user.''),
            \<lparr> world = w1,
              trace = trace e @ [ConfirmAsked (toolName_of call) (toolArgs_of call) False] \<rparr>)"
  using assms by (simp add: handle_call_def confirm_step_def Let_def)

lemma run_calls_model_next:
  assumes "iteration < maxIterations ag"
  shows "ModelCalled (build_request (push_content ag (user_turn input)))
           \<in> set (trace (snd (snd (run ag input iteration e))))"
proof -
  let ?ag1 = "push_content ag (user_turn input)"
  obtain answer w1 where cl: "client ag (build_request ?ag1) (world e) = (answer, w1)"
    by (cases "client ag (build_request ?ag1) (world e)") auto
  let ?e1 = "\<lparr> world = w1, trace = trace e @ [ModelCalled (build_request ?ag1)] \<rparr>"
  show ?thesis
  proof (cases answer)
    case (Inl err)
    with assms cl show ?thesis by (simp add: run_transport_failure)
  next
    case (Inr response)
    note cl' = cl[unfolded Inr]
    show ?thesis
    proof (cases "functionCalls response = None \<or> functionCalls response = Some []")
      case True
      from run_final[OF assms cl' True] show ?thesis by simp
    next
      case False
      then obtain calls where fc: "functionCalls response = Some calls" and ne: "calls \<noteq> []"
        by (cases "functionCalls response") auto
      obtain ps e2 where hc: "handle_calls ag calls ?e1 = (ps, e2)"
        by (cases "handle_calls ag calls ?e1") auto
      obtain t where t: "trace e2 = trace ?e1 @ t"
        using handle_calls_trace[of ag calls ?e1] hc by auto
      obtain t' where t': "trace (snd (snd (run (push_reply ?ag1 response) (PartsInput ps) (iteration + 1) e2))) = trace e2 @ t'"
        using run_trace_grows by blast
      show ?thesis
        using run_recurse[OF assms cl' fc ne hc] t t' by simp
    qed
  qed
qed

subsection \<open>A reply without tool calls\<close>

text \<open>
  C2, as amended. A \<open>run\<close> call below the iteration limit whose model response carries
  candidate content and requests no tool invocation (\<open>functionCalls\<close> absent or
  empty) appends exactly two Turns, the user-role Turn wrapping the input and then the
  content of the response, and returns the response unchanged.
\<close>

theorem run_without_tool_calls:
  assumes "iteration < maxIterations ag"
    and "client ag (build_request (push_content ag (user_turn input))) (world e) = (Inr response, w1)"
    and "functionCalls response = None \<or> functionCalls response = Some []"
    and "first_content response = Some c"
  shows "run ag input iteration e =
           (Inr response,
            ag\<lparr>contents := contents ag @ [user_turn input, c]\<rparr>,
            \<lparr> world = w1,
              trace = trace e @ [ModelCalled (build_request (push_content ag (user_turn input)))] \<rparr>)
       \<and> role (user_turn input) = ''user''"
  using run_final[OF assms(1,2,3)] assms(4)
  by (simp add: push_reply_def push_content_def user_turn_def split: Input.splits)

theorem run_without_tool_calls_witness:
  "(0::int) < maxIterations (mock_agent 15)
   \<and> client (mock_agent 15)
         (build_request (push_content (mock_agent 15) (user_turn (StringInput ''Hello''))))
         (world (start_env [createMockResponse ''Response'' None]))
       = (Inr (createMockResponse ''Response'' None), [])
   \<and> functionCalls (createMockResponse ''Response'' None) = None
   \<and> first_content (createMockResponse ''Response'' None)
       = Some \<lparr> role = ''model'', parts = [TextPart ''Response''] \<rparr>
   \<and> run (mock_agent 15) (StringInput ''Hello'') 0 (start_env [createMockResponse ''Response'' None])
       = (Inr (createMockResponse ''Response'' None),
          (mock_agent 15)\<lparr>contents :=
             [\<lparr> role = ''user'', parts = [TextPart ''Hello''] \<rparr>,
              \<lparr> role = ''model'', parts = [TextPart ''Response''] \<rparr>]\<rparr>,
          \<lparr> world = [],
            trace = [ModelCalled (build_request
                      (push_content (mock_agent 15) (user_turn (StringInput ''Hello''))))] \<rparr>)"
proof -
  let ?r = "createMockResponse ''Response'' None"
  let ?c = "\<lparr> role = ''model'', parts = [TextPart ''Response''] \<rparr>"
  have a: "(0::int) < maxIterations (mock_agent 15)" by simp
  have b: "client (mock_agent 15)
         (build_request (push_content (mock_agent 15) (user_turn (StringInput ''Hello''))))
         (world (start_env [?r])) = (Inr ?r, [])"
    by (simp add: scripted_client_def start_env_def)
  have c: "functionCalls ?r = None \<or> functionCalls ?r = Some []"
    by (simp add: createMockResponse_def)
  have d: "first_content ?r = Some ?c"
    by (simp add: createMockResponse_def first_content_def)
  from run_without_tool_calls[OF a b c d] a b c d show ?thesis
    by (simp add: start_env_def user_turn_def createMockResponse_def)
qed

text \<open>
  C2 as the specification states it, for every response without tool calls, fails for a response
  that carries no content: one Turn is appended, not two.
\<close>

theorem run_two_turns_counterexample:
  "functionCalls blocked_response = None
   \<and> fst (run (mock_agent 15) (StringInput ''Hello'') 0 (start_env [blocked_response]))
       = Inr blocked_response
   \<and> contents (fst (snd (run (mock_agent 15) (StringInput ''Hello'') 0 (start_env [blocked_response]))))
       = contents (mock_agent 15) @ [\<lparr> role = ''user'', parts = [TextPart ''Hello''] \<rparr>]"
proof -
  have a: "(0::int) < maxIterations (mock_agent 15)" by simp
  have b: "client (mock_agent 15)
         (build_request (push_content (mock_agent 15) (user_turn (StringInput ''Hello''))))
         (world (start_env [blocked_response])) = (Inr blocked_response, [])"
    by (simp add: scripted_client_def start_env_def)
  have c: "functionCalls blocked_response = None \<or> functionCalls blocked_response = Some []"
    by (simp add: blocked_response_def)
  show ?thesis
    by (simp add: run_final[OF a b c])
       (simp add: blocked_response_def push_reply_def first_content_def push_content_def user_turn_def)
qed

text \<open>
  C10. When the model response carries no candidate content, \<open>run\<close> appends the
  user-role input Turn and nothing else: without tool calls it returns the response
  with the Conversation State grown by that one Turn; with tool calls the agent it
  recurses on has grown by that one Turn.
\<close>

theorem run_reply_without_content:
  assumes "iteration < maxIterations ag"
    and "client ag (build_request (push_content ag (user_turn input))) (world e) = (Inr response, w1)"
    and "first_content response = None"
    and "e1 = \<lparr> world = w1,
               trace = trace e @ [ModelCalled (build_request (push_content ag (user_turn input)))] \<rparr>"
  shows "(functionCalls response = None \<or> functionCalls response = Some [] \<longrightarrow>
            run ag input iteration e = (Inr response, ag\<lparr>contents := contents ag @ [user_turn input]\<rparr>, e1))
       \<and> (\<forall>calls ps e2.
            functionCalls response = Some calls \<and> calls \<noteq> [] \<and> handle_calls ag calls e1 = (ps, e2) \<longrightarrow>
            run ag input iteration e =
              run (ag\<lparr>contents := contents ag @ [user_turn input]\<rparr>) (PartsInput ps) (iteration + 1) e2)
       \<and> role (user_turn input) = ''user''"
proof -
  have p: "push_reply (push_content ag (user_turn input)) response = ag\<lparr>contents := contents ag @ [user_turn input]\<rparr>"
    using assms(3) by (simp add: push_reply_def push_content_def)
  have 1: "functionCalls response = None \<or> functionCalls response = Some [] \<longrightarrow>
            run ag input iteration e = (Inr response, ag\<lparr>contents := contents ag @ [user_turn input]\<rparr>, e1)"
    using run_final[OF assms(1,2)] p assms(4) by simp
  have 2: "\<forall>calls ps e2.
            functionCalls response = Some calls \<and> calls \<noteq> [] \<and> handle_calls ag calls e1 = (ps, e2) \<longrightarrow>
            run ag input iteration e =
              run (ag\<lparr>contents := contents ag @ [user_turn input]\<rparr>) (PartsInput ps) (iteration + 1) e2"
    using run_recurse[OF assms(1,2)] p assms(4) by simp
  have 3: "role (user_turn input) = ''user''"
    by (simp add: user_turn_def split: Input.splits)
  from 1 2 3 show ?thesis by blast
qed

theorem run_reply_without_content_witness:
  "(0::int) < maxIterations (mock_agent 15)
   \<and> client (mock_agent 15)
         (build_request (push_content (mock_agent 15) (user_turn (StringInput ''Hello''))))
         (world (start_env [contentless_response]))
       = (Inr contentless_response, [])
   \<and> first_content contentless_response = None
   \<and> functionCalls contentless_response = None
   \<and> run (mock_agent 15) (StringInput ''Hello'') 0 (start_env [contentless_response])
       = (Inr contentless_response,
          (mock_agent 15)\<lparr>contents := [\<lparr> role = ''user'', parts = [TextPart ''Hello''] \<rparr>]\<rparr>,
          \<lparr> world = [],
            trace = [ModelCalled (build_request
                      (push_content (mock_agent 15) (user_turn (StringInput ''Hello''))))] \<rparr>)"
proof -
  have a: "(0::int) < maxIterations (mock_agent 15)" by simp
  have b: "client (mock_agent 15)
         (build_request (push_content (mock_agent 15) (user_turn (StringInput ''Hello''))))
         (world (start_env [contentless_response])) = (Inr contentless_response, [])"
    by (simp add: scripted_client_def start_env_def)
  have c: "first_content contentless_response = None"
    by (simp add: contentless_response_def first_content_def)
  have d: "functionCalls contentless_response = None"
    by (simp add: contentless_response_def)
  from run_reply_without_content[OF a b c refl] a b c d show ?thesis
    by (simp add: start_env_def user_turn_def)
qed

subsection \<open>A reply with tool calls\<close>





subsection \<open>The three fates of a call\<close>

lemma handle_call_unknown:
  assumes "lookup_tool ag (toolName_of call) = Absent"
  shows "handle_call ag call e =
           (FunctionResponse (toolName_of call) (ErrorOf (not_found_message ag (toolName_of call))),
            fire_onToolCall ag (toolName_of call) (toolArgs_of call) e)"
  using assms by (simp add: handle_call_def Let_def)

lemma handle_call_inherited:
  assumes "lookup_tool ag (toolName_of call) = Inherited"
  shows "handle_call ag call e =
           (FunctionResponse (toolName_of call)
              (ErrorOf (formatError ''tool.function is not a function''
                          (toolName_of call) (toolArgs_of call))),
            fire_onToolCall ag (toolName_of call) (toolArgs_of call) e)"
  using assms by (simp add: handle_call_def Let_def)

lemma handle_call_confirmed:
  assumes "lookup_tool ag (toolName_of call) = Registered tool"
    and "confirm_step ag tool (toolName_of call) (toolArgs_of call) e = (True, e1)"
    and "e2 = fire_onToolCall ag (toolName_of call) (toolArgs_of call) e1"
    and "tool_function tool (Object_values (toolArgs_of call)) (world e2) = (outcome, w3)"
  shows "handle_call ag call e =
           (FunctionResponse (toolName_of call)
              (case outcome of
                 Inr v \<Rightarrow> ResultOf v
               | Inl m \<Rightarrow> ErrorOf (formatError m (toolName_of call) (toolArgs_of call))),
            \<lparr> world = w3,
              trace = trace e2 @ [ToolInvoked (toolName_of call) (Object_values (toolArgs_of call))] \<rparr>)"
  using assms by (simp add: handle_call_def execute_step_def Let_def split: sum.splits)

lemma handle_call_refused:
  assumes "lookup_tool ag (toolName_of call) = Registered tool"
    and "confirm_step ag tool (toolName_of call) (toolArgs_of call) e = (False, e1)"
  shows "handle_call ag call e =
           (FunctionResponse (toolName_of call) (ErrorOf ''Action cancelled by user.''), e1)"
  using assms by (simp add: handle_call_def Let_def)

lemma confirm_step_False:
  assumes "confirm_step ag tool n a e = (False, e1)"
  shows "\<exists>w. e1 = \<lparr> world = w, trace = trace e @ [ConfirmAsked n a False] \<rparr>"
  using assms by (auto simp: confirm_step_def split_beta split: option.splits if_splits)

lemma confirm_step_True:
  assumes "confirm_step ag tool n a e = (True, e1)"
  shows "e1 = e \<or> (\<exists>w. e1 = \<lparr> world = w, trace = trace e @ [ConfirmAsked n a True] \<rparr>)"
  using assms by (auto simp: confirm_step_def split_beta split: option.splits if_splits)

lemma logging_agent_fields [simp]:
  "tools logging_agent = Some createMockTools"
  "onToolCall logging_agent = Some (\<lambda>n a w. w)"
  "confirmAction logging_agent = None"
  by (simp_all add: logging_agent_def new_Agent_def mock_config_def)

text \<open>
  C6, as amended. With a logging hook configured, the hook is fired once for a call
  whose name is no tool of the registry (lines 138-141 log unknown tool calls; an
  inherited name is logged on line 127), never for a call that the confirmation hook
  denies, and once, right before the tool function is invoked, for a call that
  executes.
\<close>

theorem logging_hook_fired:
  assumes "onToolCall ag = Some hook"
    and "n = toolName_of call" and "a = toolArgs_of call"
  shows "(lookup_tool ag n = Absent \<or> lookup_tool ag n = Inherited \<longrightarrow>
            snd (handle_call ag call e)
              = \<lparr> world = hook n a (world e), trace = trace e @ [ToolCallLogged n a] \<rparr>)
       \<and> (\<forall>tool e1. lookup_tool ag n = Registered tool \<and> confirm_step ag tool n a e = (False, e1) \<longrightarrow>
            snd (handle_call ag call e) = e1
            \<and> trace e1 = trace e @ [ConfirmAsked n a False])
       \<and> (\<forall>tool e1. lookup_tool ag n = Registered tool \<and> confirm_step ag tool n a e = (True, e1) \<longrightarrow>
            trace (snd (handle_call ag call e))
              = trace e1 @ [ToolCallLogged n a, ToolInvoked n (Object_values a)]
            \<and> (trace e1 = trace e \<or> trace e1 = trace e @ [ConfirmAsked n a True]))"
proof -
  have 1: "lookup_tool ag n = Absent \<or> lookup_tool ag n = Inherited \<longrightarrow>
            snd (handle_call ag call e)
              = \<lparr> world = hook n a (world e), trace = trace e @ [ToolCallLogged n a] \<rparr>"
    using assms by (auto simp add: handle_call_unknown handle_call_inherited fire_onToolCall_def)
  have 2: "\<forall>tool e1. lookup_tool ag n = Registered tool \<and> confirm_step ag tool n a e = (False, e1) \<longrightarrow>
            snd (handle_call ag call e) = e1 \<and> trace e1 = trace e @ [ConfirmAsked n a False]"
  proof (intro allI impI)
    fix tool e1
    assume h: "lookup_tool ag n = Registered tool \<and> confirm_step ag tool n a e = (False, e1)"
    then have "handle_call ag call e
        = (FunctionResponse (toolName_of call) (ErrorOf ''Action cancelled by user.''), e1)"
      using handle_call_refused[of ag call tool e e1] assms(2,3) by simp
    moreover obtain w where "e1 = \<lparr> world = w, trace = trace e @ [ConfirmAsked n a False] \<rparr>"
      using confirm_step_False h by blast
    ultimately show "snd (handle_call ag call e) = e1 \<and> trace e1 = trace e @ [ConfirmAsked n a False]"
      by simp
  qed
  have 3: "\<forall>tool e1. lookup_tool ag n = Registered tool \<and> confirm_step ag tool n a e = (True, e1) \<longrightarrow>
            trace (snd (handle_call ag call e))
              = trace e1 @ [ToolCallLogged n a, ToolInvoked n (Object_values a)]
            \<and> (trace e1 = trace e \<or> trace e1 = trace e @ [ConfirmAsked n a True])"
  proof (intro allI impI)
    fix tool e1
    assume h: "lookup_tool ag n = Registered tool \<and> confirm_step ag tool n a e = (True, e1)"
    let ?e2 = "fire_onToolCall ag n a e1"
    obtain outcome w3 where tf: "tool_function tool (Object_values a) (world ?e2) = (outcome, w3)"
      by (cases "tool_function tool (Object_values a) (world ?e2)") auto
    have "trace (snd (handle_call ag call e)) = trace ?e2 @ [ToolInvoked n (Object_values a)]"
      using handle_call_confirmed[of ag call tool e e1 ?e2 outcome w3] h tf assms(2,3) by simp
    moreover have "trace ?e2 = trace e1 @ [ToolCallLogged n a]"
      using assms(1) by (simp add: fire_onToolCall_def)
    moreover have "trace e1 = trace e \<or> trace e1 = trace e @ [ConfirmAsked n a True]"
      using confirm_step_True[of ag tool n a e e1] h by auto
    ultimately show "trace (snd (handle_call ag call e))
              = trace e1 @ [ToolCallLogged n a, ToolInvoked n (Object_values a)]
            \<and> (trace e1 = trace e \<or> trace e1 = trace e @ [ConfirmAsked n a True])"
      by simp
  qed
  from 1 2 3 show ?thesis by blast
qed

theorem logging_hook_fired_witness:
  "onToolCall denying_agent = Some (\<lambda>n a w. w)
   \<and> lookup_tool denying_agent ''nonexistent_tool'' = Absent
   \<and> snd (handle_call denying_agent (mock_call (''nonexistent_tool'', [])) (start_env []))
       = \<lparr> world = [], trace = [ToolCallLogged ''nonexistent_tool'' []] \<rparr>
   \<and> lookup_tool denying_agent ''toString'' = Inherited
   \<and> snd (handle_call denying_agent (mock_call (''toString'', [])) (start_env []))
       = \<lparr> world = [], trace = [ToolCallLogged ''toString'' []] \<rparr>
   \<and> lookup_tool denying_agent ''dangerous_tool'' = Registered dangerous_tool
   \<and> confirm_step denying_agent dangerous_tool ''dangerous_tool'' [] (start_env [])
       = (False, \<lparr> world = [], trace = [ConfirmAsked ''dangerous_tool'' [] False] \<rparr>)
   \<and> snd (handle_call denying_agent (mock_call (''dangerous_tool'', [])) (start_env []))
       = \<lparr> world = [], trace = [ConfirmAsked ''dangerous_tool'' [] False] \<rparr>
   \<and> lookup_tool denying_agent ''test_tool'' = Registered test_tool
   \<and> confirm_step denying_agent test_tool ''test_tool'' [(''input'', JStr ''test'')] (start_env [])
       = (True, start_env [])
   \<and> trace (snd (handle_call denying_agent (mock_call (''test_tool'', [(''input'', JStr ''test'')]))
         (start_env [])))
       = [ToolCallLogged ''test_tool'' [(''input'', JStr ''test'')],
          ToolInvoked ''test_tool'' [JStr ''test'']]"
proof -
  let ?e = "start_env ([]::GenerateContentResponse list)"
  let ?hook = "\<lambda>(n::string) (a::args) (w::GenerateContentResponse list). w"
  have h: "onToolCall denying_agent = Some ?hook" by simp
  have u: "lookup_tool denying_agent ''nonexistent_tool'' = Absent" by simp
  have d: "lookup_tool denying_agent ''dangerous_tool'' = Registered dangerous_tool" by simp
  have t: "lookup_tool denying_agent ''test_tool'' = Registered test_tool" by simp
  have cd: "confirm_step denying_agent dangerous_tool ''dangerous_tool'' [] ?e
       = (False, \<lparr> world = [], trace = [ConfirmAsked ''dangerous_tool'' [] False] \<rparr>)"
    by (simp add: confirm_step_def dangerous_tool_def start_env_def)
  have ct: "confirm_step denying_agent test_tool ''test_tool'' [(''input'', JStr ''test'')] ?e
       = (True, ?e)"
    by (simp add: confirm_step_def test_tool_def)
  have 1: "snd (handle_call denying_agent (mock_call (''nonexistent_tool'', [])) ?e)
       = \<lparr> world = [], trace = [ToolCallLogged ''nonexistent_tool'' []] \<rparr>"
    using logging_hook_fired[OF h, of "''nonexistent_tool''" "mock_call (''nonexistent_tool'', [])" "[]" ?e] u
    by (simp add: start_env_def)
  have i: "lookup_tool denying_agent ''toString'' = Inherited"
    by (simp add: lookup_tool_def createMockTools_def Object_prototype_names_def)
  have 4: "snd (handle_call denying_agent (mock_call (''toString'', [])) ?e)
       = \<lparr> world = [], trace = [ToolCallLogged ''toString'' []] \<rparr>"
    using logging_hook_fired[OF h, of "''toString''" "mock_call (''toString'', [])" "[]" ?e] i
    by (simp add: start_env_def)
  have 2: "snd (handle_call denying_agent (mock_call (''dangerous_tool'', [])) ?e)
       = \<lparr> world = [], trace = [ConfirmAsked ''dangerous_tool'' [] False] \<rparr>"
    using logging_hook_fired[OF h, of "''dangerous_tool''" "mock_call (''dangerous_tool'', [])" "[]" ?e] d cd
    by simp
  have 3: "trace (snd (handle_call denying_agent (mock_call (''test_tool'', [(''input'', JStr ''test'')])) ?e))
       = [ToolCallLogged ''test_tool'' [(''input'', JStr ''test'')], ToolInvoked ''test_tool'' [JStr ''test'']]"
    using logging_hook_fired[OF h, of "''test_tool''" "mock_call (''test_tool'', [(''input'', JStr ''test'')])"
        "[(''input'', JStr ''test'')]" ?e] t ct
    by (simp add: start_env_def Object_values_def)
  from h u 1 i 4 d cd 2 t ct 3 show ?thesis by (intro conjI)
qed

text \<open>
  C6 as the specification states it fails for a name that is absent from the registry: the hook is
  fired for it.
\<close>

theorem logging_unknown_tool_counterexample:
  "lookup_tool logging_agent ''nonexistent_tool'' = Absent
   \<and> (\<exists>hook. onToolCall logging_agent = Some hook)
   \<and> trace (snd (handle_call logging_agent (mock_call (''nonexistent_tool'', [])) (start_env [])))
       = [ToolCallLogged ''nonexistent_tool'' []]"
  by (simp add: handle_call_unknown fire_onToolCall_def start_env_def)

subsection \<open>The order of the positional arguments\<close>

lemma map_of_own_keys:
  "distinct (map fst a) \<Longrightarrow> map (map_of a) (map fst a) = map (\<lambda>kv. Some (snd kv)) a"
proof (induction a)
  case Nil
  show ?case by simp
next
  case (Cons kv a)
  then have "\<forall>k \<in> set (map fst a). k \<noteq> fst kv" by force
  then have "map (map_of (kv # a)) (map fst a) = map (map_of a) (map fst a)"
    by (cases kv) (simp add: map_eq_conv)
  with Cons show ?case by (cases kv) simp
qed

lemma fs_agent_fields [simp]:
  "tools fs_agent = Some (tools_registry example_runtime)"
  "onToolCall fs_agent = None"
  "confirmAction fs_agent = None"
  by (simp_all add: fs_agent_def new_Agent_def)

lemma lookup_write_file [simp]: "lookup_tool fs_agent ''write_file'' = Registered write_file_tool"
  by (simp add: lookup_tool_def tools_registry_def write_file_tool_def)

lemma write_file_tool_fields [simp]:
  "tool_definition write_file_tool = writeFileDefinition"
  "tool_function write_file_tool = writeFile_function example_runtime"
  by (simp_all add: write_file_tool_def)

lemma declared_write_file: "declared_parameters writeFileDefinition = [''file_path'', ''contents'']"
  by code_simp

lemma writeFile_function_ordered:
  "writeFile_function example_runtime [JStr ''/tmp/out/a.txt'', JStr ''hello''] example_fs
     = (Inr (JStr (''Successfully wrote 5 characters to '/tmp/out/a.txt'' @ [CHR 0x27])),
        fs_after_ordered)"
  by code_simp

lemma writeFile_function_swapped:
  "writeFile_function example_runtime [JStr ''hello'', JStr ''/tmp/out/a.txt''] example_fs
     = (Inr (JStr (''Successfully wrote 14 characters to 'hello'' @ [CHR 0x27])),
        fs_after_swapped)"
  by code_simp




subsection \<open>No hook at the limit\<close>

text \<open>
  C4. The agent has no on-limit hook: \<open>AgentConfig\<close> has no such field and the
  constructor copies none. On the input of the repository's test "should continue if
  onMaxIterationsReached returns true" (limit 1, a reply with one tool call, then
  "Done") \<open>run\<close> throws the "maximum iterations" Error after one model call; the second
  response is never asked for.
\<close>

theorem limit_hook_is_absent:
  "fst (run (mock_agent 1) (StringInput ''Start'') 0
          (start_env [looping_reply, createMockResponse ''Done'' None]))
     = Inl (Error ''Agent exceeded maximum iterations (1). Stopping to prevent infinite loop.'')
   \<and> world (snd (snd (run (mock_agent 1) (StringInput ''Start'') 0
          (start_env [looping_reply, createMockResponse ''Done'' None]))))
     = [createMockResponse ''Done'' None]
   \<and> trace (snd (snd (run (mock_agent 1) (StringInput ''Start'') 0
          (start_env [looping_reply, createMockResponse ''Done'' None]))))
     = [ModelCalled (build_request (push_content (mock_agent 1) (user_turn (StringInput ''Start'')))),
        ToolInvoked ''test_tool'' [JStr ''1'']]"
proof -
  let ?e = "start_env [looping_reply, createMockResponse ''Done'' None]"
  let ?rq = "build_request (push_content (mock_agent 1) (user_turn (StringInput ''Start'')))"
  let ?e1 = "\<lparr> world = [createMockResponse ''Done'' None], trace = trace ?e @ [ModelCalled ?rq] \<rparr>"
  let ?e2 = "\<lparr> world = [createMockResponse ''Done'' None],
             trace = [ModelCalled ?rq, ToolInvoked ''test_tool'' [JStr ''1'']] \<rparr>"
  let ?ag2 = "push_reply (push_content (mock_agent 1) (user_turn (StringInput ''Start''))) looping_reply"
  have a: "(0::int) < maxIterations (mock_agent 1)" by simp
  have b: "client (mock_agent 1) ?rq (world ?e) = (Inr looping_reply, [createMockResponse ''Done'' None])"
    by (simp add: scripted_client_def start_env_def)
  have c: "functionCalls looping_reply = Some [mock_call (''test_tool'', [(''input'', JStr ''1'')])]"
    by (simp add: looping_reply_def createMockResponse_def)
  have h: "handle_calls (mock_agent 1) [mock_call (''test_tool'', [(''input'', JStr ''1'')])] ?e1
             = ([FunctionResponse ''test_tool'' (ResultOf (JStr ''Result: 1''))], ?e2)"
    by (simp add: handle_call_def confirm_step_def execute_step_def fire_onToolCall_def
          test_tool_def Object_values_def argument_def Let_def start_env_def)
  have r: "run (mock_agent 1) (StringInput ''Start'') 0 ?e
           = run ?ag2 (PartsInput [FunctionResponse ''test_tool'' (ResultOf (JStr ''Result: 1''))]) (0 + 1) ?e2"
    using run_recurse[OF a b c _ h] by simp
  have m: "maxIterations ?ag2 = 1" by simp
  have l: "limit_message 1 = ''Agent exceeded maximum iterations (1). Stopping to prevent infinite loop.''"
    by (simp add: limit_message_def string_of_int_def digit_char_def)
  show ?thesis
    unfolding r by (simp add: run_limit m l)
qed

section \<open>Properties of the file system tools\<close>

subsection \<open>Facts about the file system\<close>

lemma lookup_put:
  "lookup fs (butlast p) = Some (Dir es) \<Longrightarrow> p \<noteq> [] \<Longrightarrow> lookup (put fs p new) p = Some new"
proof (induction p arbitrary: fs es)
  case Nil
  then show ?case by simp
next
  case (Cons x xs)
  show ?case
  proof (cases "xs = []")
    case True
    with Cons.prems show ?thesis by (simp add: update_conv')
  next
    case False
    with Cons.prems obtain es0 child where fs: "fs = Dir es0" and ch: "map_of es0 x = Some child"
      and lk: "lookup child (butlast xs) = Some (Dir es)"
      by (cases fs) (auto split: option.splits)
    from Cons.IH[OF lk False] have "lookup (put child xs new) xs = Some new" .
    with fs ch False show ?thesis by (simp add: update_conv')
  qed
qed

lemma writeFileSync_stores:
  assumes "writeFileSync fs p c = Inr fs'"
  shows "lookup fs' p = Some (File c)"
proof -
  from assms obtain es where d: "lookup fs (dirname p) = Some (Dir es)" and fs': "fs' = put fs p (File c)"
    and nd: "\<forall>es'. lookup fs p \<noteq> Some (Dir es')"
    by (auto simp: writeFileSync_def split: option.splits node.splits)
  have "p \<noteq> []"
  proof
    assume "p = []"
    with d nd show False by (simp add: dirname_def)
  qed
  with d fs' show ?thesis by (simp add: dirname_def lookup_put)
qed

lemma lookup_append:
  "lookup fs (p @ q) = (case lookup fs p of None \<Rightarrow> None | Some n \<Rightarrow> lookup n q)"
proof (induction p arbitrary: fs)
  case Nil
  show ?case by simp
next
  case (Cons x xs)
  show ?case
  proof (cases fs)
    case (File c)
    then show ?thesis by simp
  next
    case (Dir es)
    then show ?thesis using Cons.IH by (simp split: option.splits)
  qed
qed

lemma mkdirp_existing:
  "mkdirp fs d = Some fs1 \<Longrightarrow> lookup fs d = Some n \<Longrightarrow> \<exists>es. n = Dir es"
proof (induction d arbitrary: fs fs1)
  case Nil
  then show ?case by (cases fs) auto
next
  case (Cons x xs)
  from Cons.prems obtain es where fs: "fs = Dir es" by (cases fs) auto
  from Cons.prems(2) fs obtain child where ch: "map_of es x = Some child" and lk: "lookup child xs = Some n"
    by (auto split: option.splits)
  from Cons.prems(1) fs ch obtain child' where "mkdirp child xs = Some child'"
    by (auto split: option.splits)
  from Cons.IH[OF this lk] show ?case .
qed

lemma mkdirp_creates:
  "mkdirp fs d = Some fs1 \<Longrightarrow> lookup fs d = None \<Longrightarrow> lookup fs1 d = Some (Dir [])"
proof (induction d arbitrary: fs fs1)
  case Nil
  then show ?case by simp
next
  case (Cons x xs)
  from Cons.prems obtain es where fs: "fs = Dir es" by (cases fs) auto
  show ?case
  proof (cases "map_of es x")
    case None
    with Cons.prems(1) fs obtain child' where m: "mkdirp (Dir []) xs = Some child'"
      and fs1: "fs1 = Dir (AList.update x child' es)"
      by (auto split: option.splits)
    have "lookup child' xs = Some (Dir [])"
    proof (cases xs)
      case Nil
      with m show ?thesis by simp
    next
      case (Cons y ys)
      then have "lookup (Dir []) xs = None" by simp
      from Cons.IH[OF m this] show ?thesis .
    qed
    with fs1 show ?thesis by (simp add: update_conv')
  next
    case (Some child)
    with Cons.prems(1) fs obtain child' where m: "mkdirp child xs = Some child'"
      and fs1: "fs1 = Dir (AList.update x child' es)"
      by (auto split: option.splits)
    from Cons.prems(2) fs Some have "lookup child xs = None" by simp
    from Cons.IH[OF m this] fs1 show ?thesis by (simp add: update_conv')
  qed
qed

lemma writeFile_succeeds:
  assumes "r = resolvePath rt filePath" and "r \<noteq> []"
    and "mkdirp fs (dirname r) \<noteq> None"
    and "\<forall>es. lookup fs r \<noteq> Some (Dir es)"
  shows "\<exists>message fs'. writeFile rt filePath file_contents fs = (Inr message, fs')"
proof -
  from assms(3) obtain fs0 where m: "mkdirp fs (dirname r) = Some fs0" by auto
  have r: "r = dirname r @ [last r]"
    using assms(2) by (simp add: dirname_def)
  show ?thesis
  proof (cases "lookup fs (dirname r)")
    case None
    then have e: "ensure_parent fs r = Inr fs0"
      using m by (simp add: ensure_parent_def existsSync_def mkdirSync_recursive_def Let_def)
    have d: "lookup fs0 (dirname r) = Some (Dir [])"
      using mkdirp_creates[OF m None] .
    have "lookup fs0 (dirname r @ [last r]) = None"
      using d by (simp add: lookup_append)
    then have "lookup fs0 r = None" using r by simp
    then have "writeFileSync fs0 r file_contents = Inr (put fs0 r (File file_contents))"
      using d by (simp add: writeFileSync_def)
    with e show ?thesis
      using assms(1) by (simp add: writeFile_def Let_def)
  next
    case (Some n)
    then have e: "ensure_parent fs r = Inr fs"
      by (simp add: ensure_parent_def existsSync_def Let_def)
    obtain es where "n = Dir es"
      using mkdirp_existing[OF m Some] by auto
    then have "writeFileSync fs r file_contents = Inr (put fs r (File file_contents))"
      using Some assms(4) by (simp add: writeFileSync_def split: option.splits node.splits)
    with e show ?thesis
      using assms(1) by (simp add: writeFile_def Let_def)
  qed
qed

lemma write_deep:
  "fst (writeFile example_runtime ''/tmp/a/b/c/deep.txt'' ''Deep content'' example_fs)
     = Inr (''Successfully wrote 12 characters to '/tmp/a/b/c/deep.txt'' @ [CHR 0x27])"
  by code_simp

lemma write_unicode:
  "fst (writeFile example_runtime ''/tmp/out/unicode.txt'' unicode_text example_fs)
     = Inr (''Successfully wrote 4 characters to '/tmp/out/unicode.txt'' @ [CHR 0x27])"
  by code_simp

lemma write_empty:
  "fst (writeFile example_runtime ''  /tmp/out/empty.txt  '' [] example_fs)
     = Inr (''Successfully wrote 0 characters to '  /tmp/out/empty.txt  '' @ [CHR 0x27])"
  by code_simp

subsection \<open>Reading back what was written\<close>



subsection \<open>Deleting a directory that is not empty\<close>

text \<open>
  C8. \<open>deleteDirectory\<close> of a directory that has entries, with \<open>recursive\<close> false or
  left out, throws an Error whose message reports the number of the directory's
  immediate entries, and the file system is the one before the call.
\<close>

theorem deleteDirectory_not_empty:
  assumes "lookup fs (resolvePath rt directoryPath) = Some (Dir entries)"
    and "entries \<noteq> []"
    and "recursive_arg = None \<or> recursive_arg = Some False"
  shows "deleteDirectory rt directoryPath recursive_arg fs =
           (Inl (''Directory '' @ quoted directoryPath @ '' is not empty (contains ''
                   @ string_of_nat (length entries) @ '' items). ''
                   @ ''Use recursive=true to delete directory and all contents, or remove contents first.''),
            fs)"
proof -
  let ?r = "resolvePath rt directoryPath"
  have v: "validatePath rt fs directoryPath = Inr \<lparr> valid = True, resolved = ?r, suggestion = None \<rparr>"
    using assms(1) by (simp add: validatePath_def existsSync_def Let_def)
  have r: "(case recursive_arg of None \<Rightarrow> False | Some b \<Rightarrow> b) = False"
    using assms(3) by auto
  show ?thesis
    using assms(1,2) by (simp add: deleteDirectory_def r v statSync_def readdirSync_def)
qed

theorem deleteDirectory_not_empty_witness:
  "lookup example_fs (resolvePath example_runtime ''/tmp/with-items'')
     = Some (Dir [(''a.txt'', File ''a''), (''b.txt'', File ''b''), (''c.txt'', File ''c'')])
   \<and> deleteDirectory example_runtime ''/tmp/with-items'' None example_fs
     = (Inl (''Directory '/tmp/with-items' is not empty (contains 3 items). ''
              @ ''Use recursive=true to delete directory and all contents, or remove contents first.''),
        example_fs)
   \<and> deleteDirectory example_runtime ''/tmp/with-items'' (Some False) example_fs
     = (Inl (''Directory '/tmp/with-items' is not empty (contains 3 items). ''
              @ ''Use recursive=true to delete directory and all contents, or remove contents first.''),
        example_fs)"
proof -
  let ?es = "[(''a.txt'', File ''a''), (''b.txt'', File ''b''), (''c.txt'', File ''c'')]"
  have l: "lookup example_fs (resolvePath example_runtime ''/tmp/with-items'') = Some (Dir ?es)"
    by code_simp
  have n: "?es \<noteq> []" by simp
  have m: "''Directory '' @ quoted ''/tmp/with-items'' @ '' is not empty (contains ''
                   @ string_of_nat (length ?es) @ '' items). ''
                   @ ''Use recursive=true to delete directory and all contents, or remove contents first.''
        = ''Directory '/tmp/with-items' is not empty (contains 3 items). ''
              @ ''Use recursive=true to delete directory and all contents, or remove contents first.''"
    by (simp add: quoted_def digit_char_def)
  have 1: "deleteDirectory example_runtime ''/tmp/with-items'' None example_fs
     = (Inl (''Directory '/tmp/with-items' is not empty (contains 3 items). ''
              @ ''Use recursive=true to delete directory and all contents, or remove contents first.''),
        example_fs)"
    using deleteDirectory_not_empty[OF l n, of None] m by simp
  have 2: "deleteDirectory example_runtime ''/tmp/with-items'' (Some False) example_fs
     = (Inl (''Directory '/tmp/with-items' is not empty (contains 3 items). ''
              @ ''Use recursive=true to delete directory and all contents, or remove contents first.''),
        example_fs)"
    using deleteDirectory_not_empty[OF l n, of "Some False"] m by simp
  from l 1 2 show ?thesis by (intro conjI)
qed

end
